theory Spec2Isabelle
  imports Main "HOL-Library.Sublist" "HOL-Library.Word"
begin

section \<open>The tgx update dispatcher: data model\<close>

text \<open>
  A shallow embedding of the dispatch core of the tgx bot library: \<^verbatim>\<open>bot.go\<close>
  (\<^verbatim>\<open>handleMessageUpdate\<close>, \<^verbatim>\<open>safeExecute\<close>, \<^verbatim>\<open>EditMessageText\<close>),
  \<^verbatim>\<open>callback_handlers.go\<close> (\<^verbatim>\<open>OnCallback\<close>, \<^verbatim>\<open>handleCallbackQuery\<close>) and
  \<^verbatim>\<open>message_handlers.go\<close> (\<^verbatim>\<open>OnMessage\<close>).

  Conventions of the embedding.
  \<^item> Go strings are \<open>string\<close> (byte lists); \<^verbatim>\<open>int64\<close> identifiers are \<open>64 word\<close>
    (they are only copied, never computed with).
  \<^item> The \<^verbatim>\<open>models\<close> package is not among the sources. Its payload types (photo
    sizes, video, voice, ...) are the type parameter \<open>'m\<close>, and a nil pointer or nil
    slice is \<open>None\<close>. The sender and chat of a message (\<^verbatim>\<open>message.From.Id\<close>,
    \<^verbatim>\<open>message.Chat.Id\<close>) are read as plain struct values, which are always present.
  \<^item> A Go map field is \<open>('k \<rightharpoonup> 'v) option\<close>: \<open>None\<close> is the nil map (reads behave
    as on the empty map, a write panics), \<open>Some m\<close> an allocated map.
  \<^item> A call that may panic returns a \<open>completion\<close>: \<open>Done v\<close> for a normal return with
    result \<open>v\<close>, \<open>Panic r\<close> for a panic whose value prints as \<open>r\<close>.
  \<^item> Effects are explicit: every handler and the fallback reporter transform a \<open>world\<close>,
    which holds the lines this package wrote to its logger and the application's own
    state \<open>app\<close>. A handler is an arbitrary function of the world, so "the handler ran
    once on context \<open>c\<close>" is the equation "the resulting world is the handler's result
    on \<open>c\<close>". A Context is passed as a value: a handler's writes to the fields of its
    \<^verbatim>\<open>*Context\<close> are not modelled.
\<close>

subsection \<open>Inbound events (as far as the dispatcher reads them)\<close>

record User =
  user_Id :: "64 word"
  user_Username :: string

record Chat =
  chat_Id :: "64 word"

record 'm Message =
  msg_Text :: string
  msg_From :: User
  msg_MessageId :: "64 word"
  msg_Chat :: Chat
  msg_Photo :: "'m option"
  msg_Video :: "'m option"
  msg_Voice :: "'m option"
  msg_Document :: "'m option"
  msg_Animation :: "'m option"
  msg_Sticker :: "'m option"
  msg_Audio :: "'m option"
  msg_VideoNote :: "'m option"

record 'm CallbackQuery =
  cq_ID :: string
  cq_Data :: string
  cq_Message :: "'m Message option"
  cq_From :: User

subsection \<open>Errors, formatted values and the log\<close>

text \<open>
  \<open>BotError code message cause\<close> is \<^verbatim>\<open>&BotError{Code, Message, Err}\<close>;
  \<open>Errorf fmt args\<close> is the error built by \<^verbatim>\<open>fmt.Errorf(fmt, args...)\<close>, kept as its
  format string and arguments. It also stands for any error a handler returns that
  is not a \<^verbatim>\<open>*BotError\<close>.
\<close>

datatype 'm err =
    BotError int string "'m err option"
  | Errorf string "'m fmt_arg list"
and 'm fmt_arg =
    ArgStr string
  | ArgInt64 "64 word"
  | ArgMsg "'m Message"
  | ArgErr "'m err"
  | ArgPanic string

datatype level = Debug | Info | Warn | Error

type_synonym 'm log_entry = "level \<times> string \<times> 'm fmt_arg list"

record ('m, 'w) world =
  logs :: "'m log_entry list"
  app :: 'w

definition logf :: "level \<Rightarrow> string \<Rightarrow> 'm fmt_arg list \<Rightarrow> ('m, 'w) world \<Rightarrow> ('m, 'w) world" where
  "logf lvl fmt args w = w\<lparr>logs := logs w @ [(lvl, fmt, args)]\<rparr>"

datatype 'a completion = Done 'a | Panic string

subsection \<open>Contexts, handlers and the bot\<close>

record 'm Context =
  ctx_Text :: string
  ctx_UserID :: "64 word"
  ctx_Username :: string
  ctx_MessageId :: "64 word"
  ctx_ChatID :: "64 word"
  ctx_Args :: "string list"
  ctx_Photo :: "'m option"
  ctx_Video :: "'m option"
  ctx_Voice :: "'m option"
  ctx_Document :: "'m option"
  ctx_Animation :: "'m option"
  ctx_Sticker :: "'m option"
  ctx_Audio :: "'m option"
  ctx_VideoNote :: "'m option"

record 'm CallbackContext =
  cbc_QueryID :: string
  cbc_Data :: string
  cbc_Message :: "'m Message option"
  cbc_UserID :: "64 word"
  cbc_Username :: string

type_synonym ('m, 'w) Handler =
  "'m Context \<Rightarrow> ('m, 'w) world \<Rightarrow> 'm err option completion \<times> ('m, 'w) world"

type_synonym ('m, 'w) callbackHandler =
  "'m CallbackContext \<Rightarrow> ('m, 'w) world \<Rightarrow> 'm err option completion \<times> ('m, 'w) world"

type_synonym ('m, 'w) ErrorHandler =
  "'m Context \<Rightarrow> 'm err \<Rightarrow> ('m, 'w) world \<Rightarrow> unit completion \<times> ('m, 'w) world"

record ('m, 'w) Bot =
  token :: string
  webhookURL :: string
  messageHandlers :: "(string \<rightharpoonup> ('m, 'w) Handler) option"
  commandHandler :: "(string \<rightharpoonup> ('m, 'w) Handler) option"
  callbackHandlers :: "(string \<rightharpoonup> ('m, 'w) callbackHandler) option"
  errorHandler :: "('m, 'w) ErrorHandler option"

text \<open>Reading a Go map: \<^verbatim>\<open>v, ok := m[k]\<close>; a nil map has no entry.\<close>

definition lookup :: "('k \<rightharpoonup> 'v) option \<Rightarrow> 'k \<Rightarrow> 'v option" where
  "lookup m k = (case m of None \<Rightarrow> None | Some f \<Rightarrow> f k)"

section \<open>The Execution Guard\<close>

text \<open>
  Modelled from the spec: \<^verbatim>\<open>IsAPIError\<close> is called by \<^verbatim>\<open>safeExecute\<close> but is not among
  the sources. The spec describes the error record as carrying a numeric
  classification code and the guard as testing whether the error carries code 403 or
  429: the error is a \<^verbatim>\<open>BotError\<close> whose code is the one asked for.
\<close>

fun IsAPIError :: "'m err \<Rightarrow> int \<Rightarrow> bool" where
  "IsAPIError (BotError c _ _) code = (c = code)"
| "IsAPIError (Errorf _ _) code = False"

text \<open>\<^verbatim>\<open>if b.errorHandler != nil { b.errorHandler(ctx, err) }\<close>\<close>

definition report ::
  "('m, 'w) Bot \<Rightarrow> 'm Context \<Rightarrow> 'm err \<Rightarrow> ('m, 'w) world \<Rightarrow> unit completion \<times> ('m, 'w) world" where
  "report b ctx e w = (case errorHandler b of None \<Rightarrow> (Done (), w) | Some eh \<Rightarrow> eh ctx e w)"

text \<open>
  The body of \<^verbatim>\<open>safeExecute\<close> below its \<^verbatim>\<open>defer\<close>: the handler call and the switch on
  the error it returns. A panic of the handler, or of the fallback reporter in the
  default case, unwinds the body.
\<close>

definition safeExecute_body ::
  "('m, 'w) Bot \<Rightarrow> 'm Context \<Rightarrow> ('m, 'w) Handler \<Rightarrow> ('m, 'w) world
    \<Rightarrow> 'm err option completion \<times> ('m, 'w) world" where
  "safeExecute_body b ctx handler w =
     (case handler ctx w of
        (Panic r, w1) \<Rightarrow> (Panic r, w1)
      | (Done None, w1) \<Rightarrow> (Done None, w1)
      | (Done (Some e), w1) \<Rightarrow>
          if IsAPIError e 403 then
            (Done (Some e), logf Warn ''Bot blocked by user: %d'' [ArgInt64 (ctx_UserID ctx)] w1)
          else if IsAPIError e 429 then
            (Done (Some e), logf Info ''Rate limited'' [] w1)
          else
            (case report b ctx e w1 of
               (Panic r, w2) \<Rightarrow> (Panic r, w2)
             | (Done u, w2) \<Rightarrow> (Done (Some e), w2)))"

text \<open>
  The deferred function: a panic of the body is recovered, logged, wrapped into the
  error \<^verbatim>\<open>fmt.Errorf("handler panic: %v", r)\<close> and handed to the fallback reporter.
  \<^verbatim>\<open>safeExecute\<close> has an unnamed result, so after the recovery it returns the zero
  value \<^verbatim>\<open>nil\<close>. A panic inside the deferred function is not recovered here.
\<close>

definition safeExecute ::
  "('m, 'w) Bot \<Rightarrow> 'm Context \<Rightarrow> ('m, 'w) Handler \<Rightarrow> ('m, 'w) world
    \<Rightarrow> 'm err option completion \<times> ('m, 'w) world" where
  "safeExecute b ctx handler w =
     (case safeExecute_body b ctx handler w of
        (Done res, w1) \<Rightarrow> (Done res, w1)
      | (Panic r, w1) \<Rightarrow>
          (case report b ctx (Errorf ''handler panic: %v'' [ArgPanic r])
                  (logf Error ''Panic in handler execution:'' [ArgPanic r] w1) of
             (Panic r2, w2) \<Rightarrow> (Panic r2, w2)
           | (Done u, w2) \<Rightarrow> (Done None, w2)))"

section \<open>String helpers of the Go standard library\<close>

text \<open>
  \<^verbatim>\<open>strings.Split(s, sep)\<close> for a separator of one byte (the dispatcher only splits on
  \<^verbatim>\<open>" "\<close> and \<^verbatim>\<open>"/"\<close>): the pieces of \<open>s\<close> between the occurrences of \<open>sep\<close>; one
  more piece than there are occurrences, so never the empty list.
\<close>

fun Split :: "string \<Rightarrow> char \<Rightarrow> string list" where
  "Split [] sep = [[]]"
| "Split (c # cs) sep =
     (if c = sep then [] # Split cs sep
      else (c # hd (Split cs sep)) # tl (Split cs sep))"

text \<open>\<^verbatim>\<open>strings.Join(elems, sep)\<close>\<close>

fun Join :: "string list \<Rightarrow> string \<Rightarrow> string" where
  "Join [] sep = []"
| "Join [x] sep = x"
| "Join (x # y # ys) sep = x @ sep @ Join (y # ys) sep"

text \<open>\<^verbatim>\<open>strings.HasPrefix(s, prefix)\<close>\<close>

definition HasPrefix :: "string \<Rightarrow> string \<Rightarrow> bool" where
  "HasPrefix s p = prefix p s"

section \<open>The Command and Content Router\<close>

text \<open>The \<^verbatim>\<open>&Context{...}\<close> literal of \<^verbatim>\<open>handleMessageUpdate\<close>; unset fields are zero.\<close>

definition newContext :: "'m Message \<Rightarrow> 'm Context" where
  "newContext message =
     \<lparr> ctx_Text = msg_Text message,
       ctx_UserID = user_Id (msg_From message),
       ctx_Username = user_Username (msg_From message),
       ctx_MessageId = msg_MessageId message,
       ctx_ChatID = chat_Id (msg_Chat message),
       ctx_Args = [],
       ctx_Photo = None, ctx_Video = None, ctx_Voice = None, ctx_Document = None,
       ctx_Animation = None, ctx_Sticker = None, ctx_Audio = None, ctx_VideoNote = None \<rparr>"

text \<open>
  The command branch (\<^verbatim>\<open>strings.HasPrefix(message.Text, "/")\<close>), in the order of the
  source: split on spaces, split the first part on slashes, attach the arguments,
  log, look the name \<^verbatim>\<open>command[1]\<close> up.
\<close>

definition handleCommand ::
  "('m, 'w) Bot \<Rightarrow> 'm Message \<Rightarrow> 'm Context \<Rightarrow> ('m, 'w) world
    \<Rightarrow> 'm err option completion \<times> ('m, 'w) world" where
  "handleCommand b message ctx w =
     (let parts = Split (msg_Text message) CHR '' '' in
      if length parts < 1 then
        (Done (Some (BotError 500 ''Failed to parse command''
                       (Some (Errorf ''Failed to parse command'' [])))),
         logf Error ''Not a valid command'' [] w)
      else
        let command = Split (parts ! 0) CHR ''/'' in
        if length command \<le> 1 then
          (Done (Some (BotError 500 ''Not a valid command''
                         (Some (Errorf ''Failed to split parts'' [])))),
           logf Error ''Not a valid command'' [] w)
        else
          let ctx1 = (if length parts > 1 then ctx\<lparr>ctx_Args := drop 1 parts\<rparr> else ctx);
              w1 = logf Debug ''Received message: %s'' [ArgStr (msg_Text message)] w;
              w2 = logf Debug ''Parsed command: %s'' [ArgStr (command ! 1)] w1;
              w3 = (if length (ctx_Args ctx1) > 0
                    then logf Debug ''Arguments: [%s]'' [ArgStr (Join (ctx_Args ctx1) '', '')] w2
                    else w2)
          in case lookup (commandHandler b) (command ! 1) of
               Some handler \<Rightarrow>
                 safeExecute b ctx1 handler
                   (logf Info ''Executing command: %s'' [ArgStr (command ! 1)] w3)
             | None \<Rightarrow>
                 (Done (Some (BotError 404 ''Unknown command''
                                (Some (Errorf ''command '%s' not found'' [ArgStr (command ! 1)])))),
                  w3))"

text \<open>
  The \<^verbatim>\<open>switch\<close> on the content fields. A Go \<^verbatim>\<open>switch\<close> runs the first case whose
  condition holds and does not fall through: when that case finds no handler, control
  leaves the switch and reaches the final \<^verbatim>\<open>return nil\<close>.
\<close>

definition handleContent ::
  "('m, 'w) Bot \<Rightarrow> 'm Message \<Rightarrow> 'm Context \<Rightarrow> ('m, 'w) world
    \<Rightarrow> 'm err option completion \<times> ('m, 'w) world" where
  "handleContent b message ctx w =
     (if msg_Text message \<noteq> [] then
        (case lookup (messageHandlers b) ''Text'' of
           Some handler \<Rightarrow> safeExecute b ctx handler w
         | None \<Rightarrow> (Done None, w))
      else if msg_Photo message \<noteq> None then
        (case lookup (messageHandlers b) ''Photo'' of
           Some handler \<Rightarrow> safeExecute b (ctx\<lparr>ctx_Photo := msg_Photo message\<rparr>) handler w
         | None \<Rightarrow> (Done None, w))
      else if msg_Video message \<noteq> None then
        (case lookup (messageHandlers b) ''Video'' of
           Some handler \<Rightarrow> safeExecute b (ctx\<lparr>ctx_Video := msg_Video message\<rparr>) handler w
         | None \<Rightarrow> (Done None, w))
      else if msg_Voice message \<noteq> None then
        (case lookup (messageHandlers b) ''Voice'' of
           Some handler \<Rightarrow> safeExecute b (ctx\<lparr>ctx_Voice := msg_Voice message\<rparr>) handler w
         | None \<Rightarrow> (Done None, w))
      else if msg_Document message \<noteq> None then
        (case lookup (messageHandlers b) ''Document'' of
           Some handler \<Rightarrow> safeExecute b (ctx\<lparr>ctx_Document := msg_Document message\<rparr>) handler w
         | None \<Rightarrow> (Done None, w))
      else if msg_Animation message \<noteq> None then
        (case lookup (messageHandlers b) ''Animation'' of
           Some handler \<Rightarrow> safeExecute b (ctx\<lparr>ctx_Animation := msg_Animation message\<rparr>) handler w
         | None \<Rightarrow> (Done None, w))
      else if msg_Sticker message \<noteq> None then
        (case lookup (messageHandlers b) ''Sticker'' of
           Some handler \<Rightarrow> safeExecute b (ctx\<lparr>ctx_Sticker := msg_Sticker message\<rparr>) handler w
         | None \<Rightarrow> (Done None, w))
      else if msg_Audio message \<noteq> None then
        (case lookup (messageHandlers b) ''Audio'' of
           Some handler \<Rightarrow> safeExecute b (ctx\<lparr>ctx_Audio := msg_Audio message\<rparr>) handler w
         | None \<Rightarrow> (Done None, w))
      else if msg_VideoNote message \<noteq> None then
        (case lookup (messageHandlers b) ''VideoNote'' of
           Some handler \<Rightarrow> safeExecute b (ctx\<lparr>ctx_VideoNote := msg_VideoNote message\<rparr>) handler w
         | None \<Rightarrow> (Done None, w))
      else
        (Done (Some (BotError 400
           ''Unsupported message type received. No handler is available for this message type.''
           (Some (Errorf ''no handler found for message type: %v'' [ArgMsg message])))),
         w))"

text \<open>
  The deferred \<^verbatim>\<open>recover\<close> of \<^verbatim>\<open>handleMessageUpdate\<close>, applied to the way its body
  ends: a normal return passes through; a panic is logged and the function returns the
  zero value of its unnamed result, \<^verbatim>\<open>nil\<close>.
\<close>

definition recoverUpdate ::
  "'m err option completion \<times> ('m, 'w) world \<Rightarrow> 'm err option \<times> ('m, 'w) world" where
  "recoverUpdate r =
     (case r of
        (Done res, w1) \<Rightarrow> (res, w1)
      | (Panic p, w1) \<Rightarrow>
          (None, logf Error ''Panic recovered in handleMessageUpdate: %v'' [ArgPanic p] w1))"

text \<open>\<^verbatim>\<open>handleMessageUpdate\<close>: the nil check, then the body under the deferred function.\<close>

definition handleMessageUpdate ::
  "('m, 'w) Bot \<Rightarrow> 'm Message option \<Rightarrow> ('m, 'w) world \<Rightarrow> 'm err option \<times> ('m, 'w) world" where
  "handleMessageUpdate b message w =
     (case message of
        None \<Rightarrow> (Some (BotError 400 ''Empty message received'' None), w)
      | Some m \<Rightarrow>
          recoverUpdate
            (if HasPrefix (msg_Text m) ''/''
             then handleCommand b m (newContext m) w
             else handleContent b m (newContext m) w))"

section \<open>The Callback Router\<close>

definition newCallbackContext :: "'m CallbackQuery \<Rightarrow> 'm CallbackContext" where
  "newCallbackContext cb =
     \<lparr> cbc_QueryID = cq_ID cb,
       cbc_Data = cq_Data cb,
       cbc_Message = cq_Message cb,
       cbc_UserID = user_Id (cq_From cb),
       cbc_Username = user_Username (cq_From cb) \<rparr>"

text \<open>
  The call that both branches of \<^verbatim>\<open>handleCallbackQuery\<close> make:
  \<^verbatim>\<open>if err := handler(ctx); err != nil { log; return err }; return nil\<close>.
  \<^verbatim>\<open>handleCallbackQuery\<close> has no \<^verbatim>\<open>recover\<close>: a panic of the handler unwinds it.
\<close>

definition callCallback ::
  "('m, 'w) callbackHandler \<Rightarrow> 'm CallbackContext \<Rightarrow> ('m, 'w) world
    \<Rightarrow> 'm err option completion \<times> ('m, 'w) world" where
  "callCallback handler ctx w =
     (case handler ctx w of
        (Panic r, w1) \<Rightarrow> (Panic r, w1)
      | (Done None, w1) \<Rightarrow> (Done None, w1)
      | (Done (Some e), w1) \<Rightarrow>
          (Done (Some e), logf Error ''error in calling handler %w: '' [ArgErr e] w1))"

text \<open>
  The loop \<^verbatim>\<open>for data, handler := range b.callbackHandlers\<close> over the entries in the
  order the runtime yields them, and the warning after it. Go does not fix the order
  of a map iteration, so the sequence of entries is an argument of the model;
  \<open>range_of m es\<close> says that \<open>es\<close> is one possible iteration of the map \<open>m\<close>: every
  entry once.
\<close>

fun rangePrefix ::
  "(string \<times> ('m, 'w) callbackHandler) list \<Rightarrow> 'm CallbackContext \<Rightarrow> string \<Rightarrow> ('m, 'w) world
    \<Rightarrow> 'm err option completion \<times> ('m, 'w) world" where
  "rangePrefix [] ctx d w =
     (Done None, logf Warn ''No callback handler found for data: %s'' [ArgStr d] w)"
| "rangePrefix ((data, handler) # rest) ctx d w =
     (if HasPrefix d data
      then callCallback handler ctx
             (logf Debug ''callback handler called for prfix: %s'' [ArgStr data] w)
      else rangePrefix rest ctx d w)"

definition range_of :: "('k \<rightharpoonup> 'v) option \<Rightarrow> ('k \<times> 'v) list \<Rightarrow> bool" where
  "range_of m es =
     (distinct (map fst es) \<and> map_of es = (case m of None \<Rightarrow> Map.empty | Some f \<Rightarrow> f))"

definition handleCallbackQuery ::
  "('m, 'w) Bot \<Rightarrow> (string \<times> ('m, 'w) callbackHandler) list \<Rightarrow> 'm CallbackQuery \<Rightarrow> ('m, 'w) world
    \<Rightarrow> 'm err option completion \<times> ('m, 'w) world" where
  "handleCallbackQuery b entries cb w =
     (case lookup (callbackHandlers b) (cq_Data cb) of
        Some handler \<Rightarrow>
          callCallback handler (newCallbackContext cb) (logf Debug ''callback handler called'' [] w)
      | None \<Rightarrow> rangePrefix entries (newCallbackContext cb) (cq_Data cb) w)"

section \<open>The Handler Registry\<close>

text \<open>\<^verbatim>\<open>OnMessage\<close> allocates the map when it is nil, then stores the handler.\<close>

definition OnMessage :: "string \<Rightarrow> ('m, 'w) Handler \<Rightarrow> ('m, 'w) Bot \<Rightarrow> ('m, 'w) Bot" where
  "OnMessage messageType handler b =
     b\<lparr>messageHandlers :=
         Some ((case messageHandlers b of None \<Rightarrow> Map.empty | Some m \<Rightarrow> m)(messageType \<mapsto> handler))\<rparr>"

text \<open>
  \<^verbatim>\<open>OnCallback\<close> stores the handler without a nil check: on a nil map the assignment
  panics.
\<close>

definition OnCallback ::
  "string \<Rightarrow> ('m, 'w) callbackHandler \<Rightarrow> ('m, 'w) Bot \<Rightarrow> ('m, 'w) Bot completion" where
  "OnCallback data handler b =
     (case callbackHandlers b of
        None \<Rightarrow> Panic ''assignment to entry in nil map''
      | Some m \<Rightarrow> Done (b\<lparr>callbackHandlers := Some (m(data \<mapsto> handler))\<rparr>))"

section \<open>Outbound requests: \<^verbatim>\<open>EditMessageText\<close>\<close>

record 'k EditMessageTextRequest =
  emt_ChatId :: "64 word"
  emt_MessageId :: "64 word"
  emt_Text :: string
  emt_ReplyMarkup :: 'k

text \<open>The values (\<^verbatim>\<open>interface{}\<close>) that the request builders put into a parameter mapping.\<close>

datatype param = PInt64 "64 word" | PStr string | PBool bool

text \<open>
  Modelled from the spec: the parameter builder (\<^verbatim>\<open>NewParamBuilder\<close>, \<^verbatim>\<open>Add\<close>,
  \<^verbatim>\<open>Build\<close>) is used by \<^verbatim>\<open>EditMessageText\<close> but is not among the sources. The spec
  gives its omission rule: a field is included iff its value is non-default
  (non-zero, non-empty, not false).
\<close>

fun is_default :: "param \<Rightarrow> bool" where
  "is_default (PInt64 n) = (n = 0)"
| "is_default (PStr s) = (s = [])"
| "is_default (PBool f) = (\<not> f)"

definition NewParamBuilder :: "string \<rightharpoonup> param" where
  "NewParamBuilder = Map.empty"

definition Add :: "string \<Rightarrow> param \<Rightarrow> (string \<rightharpoonup> param) \<Rightarrow> (string \<rightharpoonup> param)" where
  "Add key v pb = (if is_default v then pb else pb(key \<mapsto> v))"

definition Build :: "(string \<rightharpoonup> param) \<Rightarrow> (string \<rightharpoonup> param)" where
  "Build pb = pb"

text \<open>
  \<^verbatim>\<open>makeAPIRequest(token, method, params)\<close>, the API transport, is outside the
  dispatcher: it is the first argument of the model, and \<open>EditMessageText\<close> returns
  whatever the transport returns for the call it issues.
\<close>

definition EditMessageText ::
  "(string \<Rightarrow> string \<Rightarrow> (string \<rightharpoonup> param) \<Rightarrow> 'r) \<Rightarrow> ('m, 'w) Bot \<Rightarrow> 'k EditMessageTextRequest \<Rightarrow> 'r" where
  "EditMessageText makeAPIRequest b req =
     makeAPIRequest (token b) ''getMyShortDescription''
       (Build (Add ''message_id'' (PInt64 (emt_MessageId req))
                 (Add ''chat_id'' (PInt64 (emt_ChatId req)) NewParamBuilder)))"

section \<open>The router's parse in closed form, and the specification's reading\<close>

text \<open>
  What the command branch of the code computes from a text, in closed form (lemma
  \<open>command_parts\<close> below proves that \<^verbatim>\<open>command[1]\<close> of the source is \<open>command_name\<close>).
  The code splits with \<^verbatim>\<open>strings.Split(message.Text, " ")\<close>, so the only separator is
  the space character U+0020: \<open>command_name\<close> is the token after the leading \<^verbatim>\<open>/\<close> and
  before the next \<^verbatim>\<open>/\<close> or space character, and \<open>command_args\<close> are the pieces between
  single space characters after the first piece. A tab or a newline is part of a
  token, and two consecutive spaces enclose an empty argument.
\<close>

definition command_name :: "string \<Rightarrow> string" where
  "command_name tx = takeWhile (\<lambda>c. c \<noteq> CHR ''/'' \<and> c \<noteq> CHR '' '') (drop 1 tx)"

definition command_args :: "string \<Rightarrow> string list" where
  "command_args tx = drop 1 (Split tx CHR '' '')"

text \<open>
  The command name as the spec words it: the token after the leading \<^verbatim>\<open>/\<close> and before
  the next \<^verbatim>\<open>/\<close> or whitespace. Whitespace is space, tab, newline, vertical tab, form
  feed and carriage return.
\<close>

definition is_space :: "char \<Rightarrow> bool" where
  "is_space c =
     (c = CHR '' '' \<or> c = CHR 0x09 \<or> c = CHR 0x0A \<or> c = CHR 0x0B \<or> c = CHR 0x0C \<or> c = CHR 0x0D)"

definition spec_command_name :: "string \<Rightarrow> string" where
  "spec_command_name tx = takeWhile (\<lambda>c. c \<noteq> CHR ''/'' \<and> \<not> is_space c) (drop 1 tx)"

text \<open>The debug lines the command branch writes before the registry lookup.\<close>

definition command_logs :: "string \<Rightarrow> ('m, 'w) world \<Rightarrow> ('m, 'w) world" where
  "command_logs tx w =
     (let w2 = logf Debug ''Parsed command: %s'' [ArgStr (command_name tx)]
                 (logf Debug ''Received message: %s'' [ArgStr tx] w)
      in if command_args tx = [] then w2
         else logf Debug ''Arguments: [%s]'' [ArgStr (Join (command_args tx) '', '')] w2)"

text \<open>
  The content fields in the spec's fixed priority order, the registry tag of each,
  when a message populates it, and the Context field the router sets for it.
\<close>

datatype content =
  CText | CPhoto | CVideo | CVoice | CDocument | CAnimation | CSticker | CAudio | CVideoNote

definition priority :: "content list" where
  "priority = [CText, CPhoto, CVideo, CVoice, CDocument, CAnimation, CSticker, CAudio, CVideoNote]"

fun tag :: "content \<Rightarrow> string" where
  "tag CText = ''Text''"
| "tag CPhoto = ''Photo''"
| "tag CVideo = ''Video''"
| "tag CVoice = ''Voice''"
| "tag CDocument = ''Document''"
| "tag CAnimation = ''Animation''"
| "tag CSticker = ''Sticker''"
| "tag CAudio = ''Audio''"
| "tag CVideoNote = ''VideoNote''"

fun populated :: "'m Message \<Rightarrow> content \<Rightarrow> bool" where
  "populated m CText = (msg_Text m \<noteq> [])"
| "populated m CPhoto = (msg_Photo m \<noteq> None)"
| "populated m CVideo = (msg_Video m \<noteq> None)"
| "populated m CVoice = (msg_Voice m \<noteq> None)"
| "populated m CDocument = (msg_Document m \<noteq> None)"
| "populated m CAnimation = (msg_Animation m \<noteq> None)"
| "populated m CSticker = (msg_Sticker m \<noteq> None)"
| "populated m CAudio = (msg_Audio m \<noteq> None)"
| "populated m CVideoNote = (msg_VideoNote m \<noteq> None)"

fun attach :: "content \<Rightarrow> 'm Message \<Rightarrow> 'm Context \<Rightarrow> 'm Context" where
  "attach CText m c = c"
| "attach CPhoto m c = c\<lparr>ctx_Photo := msg_Photo m\<rparr>"
| "attach CVideo m c = c\<lparr>ctx_Video := msg_Video m\<rparr>"
| "attach CVoice m c = c\<lparr>ctx_Voice := msg_Voice m\<rparr>"
| "attach CDocument m c = c\<lparr>ctx_Document := msg_Document m\<rparr>"
| "attach CAnimation m c = c\<lparr>ctx_Animation := msg_Animation m\<rparr>"
| "attach CSticker m c = c\<lparr>ctx_Sticker := msg_Sticker m\<rparr>"
| "attach CAudio m c = c\<lparr>ctx_Audio := msg_Audio m\<rparr>"
| "attach CVideoNote m c = c\<lparr>ctx_VideoNote := msg_VideoNote m\<rparr>"

definition first_populated :: "'m Message \<Rightarrow> content option" where
  "first_populated m = List.find (populated m) priority"

section \<open>A concrete bot, used to instantiate the theorems\<close>

text \<open>
  The application state is a list of marks; every demo handler appends its own mark,
  so the list shows which functions ran, how often and in which order.
\<close>

type_synonym demo_world = "(nat, string list) world"

definition mark :: "string \<Rightarrow> demo_world \<Rightarrow> demo_world" where
  "mark s w = w\<lparr>app := app w @ [s]\<rparr>"

definition demo_world :: demo_world where
  "demo_world = \<lparr>logs = [], app = []\<rparr>"

definition ok_handler :: "string \<Rightarrow> (nat, string list) Handler" where
  "ok_handler s ctx w = (Done None, mark (s @ '':'' @ Join (ctx_Args ctx) '','') w)"

definition deny_handler :: "(nat, string list) Handler" where
  "deny_handler ctx w = (Done (Some (BotError 403 ''Forbidden'' None)), mark ''handler'' w)"

definition limit_handler :: "(nat, string list) Handler" where
  "limit_handler ctx w = (Done (Some (BotError 429 ''Too Many Requests'' None)), mark ''handler'' w)"

definition fail_handler :: "(nat, string list) Handler" where
  "fail_handler ctx w = (Done (Some (Errorf ''boom'' [])), mark ''handler'' w)"

definition panic_handler :: "(nat, string list) Handler" where
  "panic_handler ctx w = (Panic ''index out of range'', mark ''handler'' w)"

definition demo_reporter :: "(nat, string list) ErrorHandler" where
  "demo_reporter ctx e w = (Done (), mark ''reporter'' w)"

definition cb_handler :: "string \<Rightarrow> (nat, string list) callbackHandler" where
  "cb_handler s ctx w = (Done None, mark (s @ '':'' @ cbc_Data ctx) w)"

definition demo_bot :: "(nat, string list) Bot" where
  "demo_bot =
     \<lparr> token = ''TOKEN'', webhookURL = ''https://example.org/hook'',
       messageHandlers = Some [''Video'' \<mapsto> ok_handler ''video'', ''Text'' \<mapsto> ok_handler ''text''],
       commandHandler = Some [''start'' \<mapsto> ok_handler ''start''],
       callbackHandlers = Some [''buy'' \<mapsto> cb_handler ''buy'', ''buy:1'' \<mapsto> cb_handler ''buy1''],
       errorHandler = Some demo_reporter \<rparr>"

definition text_handler :: "(nat, string list) Handler" where
  "text_handler ctx w = (Done None, mark (''text:'' @ ctx_Text ctx) w)"

definition video_handler :: "(nat, string list) Handler" where
  "video_handler ctx w =
     (Done None,
      mark (case ctx_Video ctx of
              None \<Rightarrow> ''video:none''
            | Some n \<Rightarrow> ''video:'' @ replicate n CHR ''#'') w)"

definition echo_bot :: "(nat, string list) Bot" where
  "echo_bot =
     demo_bot\<lparr>messageHandlers := Some [''Text'' \<mapsto> text_handler, ''Video'' \<mapsto> video_handler]\<rparr>"

definition demo_user :: User where
  "demo_user = \<lparr>user_Id = 7, user_Username = ''alice''\<rparr>"

definition demo_message :: "string \<Rightarrow> nat option \<Rightarrow> nat option \<Rightarrow> nat Message" where
  "demo_message tx photo video =
     \<lparr> msg_Text = tx, msg_From = demo_user, msg_MessageId = 11, msg_Chat = \<lparr>chat_Id = 5\<rparr>,
       msg_Photo = photo, msg_Video = video, msg_Voice = None, msg_Document = None,
       msg_Animation = None, msg_Sticker = None, msg_Audio = None, msg_VideoNote = None \<rparr>"

definition demo_query :: "string \<Rightarrow> nat CallbackQuery" where
  "demo_query d = \<lparr>cq_ID = ''q1'', cq_Data = d, cq_Message = None, cq_From = demo_user\<rparr>"

definition demo_request :: "string EditMessageTextRequest" where
  "demo_request =
     \<lparr>emt_ChatId = 5, emt_MessageId = 11, emt_Text = ''new text'', emt_ReplyMarkup = ''keyboard''\<rparr>"

section \<open>Properties of the Execution Guard\<close>

lemma safeExecute_returned:
  assumes "handler ctx w = (Done (Some e), w1)"
  shows "safeExecute b ctx handler w =
           (if IsAPIError e 403 then
              (Done (Some e), logf Warn ''Bot blocked by user: %d'' [ArgInt64 (ctx_UserID ctx)] w1)
            else if IsAPIError e 429 then (Done (Some e), logf Info ''Rate limited'' [] w1)
            else (case report b ctx e w1 of
                    (Done u, w2) \<Rightarrow> (Done (Some e), w2)
                  | (Panic r, w2) \<Rightarrow>
                      (case report b ctx (Errorf ''handler panic: %v'' [ArgPanic r])
                              (logf Error ''Panic in handler execution:'' [ArgPanic r] w2) of
                         (Done u, w3) \<Rightarrow> (Done None, w3)
                       | (Panic r2, w3) \<Rightarrow> (Panic r2, w3))))"
  using assms
  by (simp add: safeExecute_def safeExecute_body_def split: prod.splits completion.splits)

lemma safeExecute_panicked:
  assumes "handler ctx w = (Panic r, w1)"
  shows "safeExecute b ctx handler w =
           (case report b ctx (Errorf ''handler panic: %v'' [ArgPanic r])
                   (logf Error ''Panic in handler execution:'' [ArgPanic r] w1) of
              (Done u, w2) \<Rightarrow> (Done None, w2)
            | (Panic r2, w2) \<Rightarrow> (Panic r2, w2))"
  using assms
  by (simp add: safeExecute_def safeExecute_body_def split: prod.splits completion.splits)

lemma IsAPIError_exclusive: "IsAPIError e 429 \<Longrightarrow> \<not> IsAPIError e 403"
  by (cases e) simp_all

text \<open>
  Claim C2. Let the handler return a non-nil error \<open>e\<close>, leaving the world \<open>w1\<close>.
  If \<open>e\<close> carries code 403 or code 429, the guard returns \<open>e\<close> and the world is \<open>w1\<close>
  plus one log line (a warning for 403, an informational line for 429): the fallback
  reporter has not run, whatever reporter is registered. For any other error, a
  registered reporter that returns normally has run exactly once, on the Context and
  \<open>e\<close>, after the handler (the final world is its result on \<open>w1\<close>), and the guard
  returns \<open>e\<close>; with no reporter registered the guard just returns \<open>e\<close>.
\<close>

theorem guard_classifies_returned_error:
  assumes "handler ctx w = (Done (Some e), w1)"
  shows "(IsAPIError e 403 \<longrightarrow>
            safeExecute b ctx handler w =
              (Done (Some e), logf Warn ''Bot blocked by user: %d'' [ArgInt64 (ctx_UserID ctx)] w1))
       \<and> (IsAPIError e 429 \<longrightarrow>
            safeExecute b ctx handler w = (Done (Some e), logf Info ''Rate limited'' [] w1))
       \<and> (\<not> IsAPIError e 403 \<and> \<not> IsAPIError e 429 \<longrightarrow>
            (\<forall>eh w2. errorHandler b = Some eh \<and> eh ctx e w1 = (Done (), w2) \<longrightarrow>
               safeExecute b ctx handler w = (Done (Some e), w2)))
       \<and> (\<not> IsAPIError e 403 \<and> \<not> IsAPIError e 429 \<and> errorHandler b = None \<longrightarrow>
            safeExecute b ctx handler w = (Done (Some e), w1))"
proof (intro conjI impI allI)
  assume "IsAPIError e 403"
  then show "safeExecute b ctx handler w =
      (Done (Some e), logf Warn ''Bot blocked by user: %d'' [ArgInt64 (ctx_UserID ctx)] w1)"
    by (simp add: safeExecute_returned [of handler ctx w e w1 b, OF assms])
next
  assume "IsAPIError e 429"
  then show "safeExecute b ctx handler w = (Done (Some e), logf Info ''Rate limited'' [] w1)"
    by (simp add: safeExecute_returned [of handler ctx w e w1 b, OF assms] IsAPIError_exclusive)
next
  fix eh w2
  assume "\<not> IsAPIError e 403 \<and> \<not> IsAPIError e 429"
    and "errorHandler b = Some eh \<and> eh ctx e w1 = (Done (), w2)"
  then show "safeExecute b ctx handler w = (Done (Some e), w2)"
    by (simp add: safeExecute_returned [of handler ctx w e w1 b, OF assms] report_def)
next
  assume "\<not> IsAPIError e 403 \<and> \<not> IsAPIError e 429 \<and> errorHandler b = None"
  then show "safeExecute b ctx handler w = (Done (Some e), w1)"
    by (simp add: safeExecute_returned [of handler ctx w e w1 b, OF assms] report_def)
qed

theorem guard_classifies_returned_error_witness:
  "safeExecute demo_bot (newContext (demo_message ''hi'' None None)) deny_handler demo_world =
     (Done (Some (BotError 403 ''Forbidden'' None)),
      \<lparr>logs = [(Warn, ''Bot blocked by user: %d'', [ArgInt64 7])], app = [''handler'']\<rparr>)
   \<and> safeExecute demo_bot (newContext (demo_message ''hi'' None None)) limit_handler demo_world =
     (Done (Some (BotError 429 ''Too Many Requests'' None)),
      \<lparr>logs = [(Info, ''Rate limited'', [])], app = [''handler'']\<rparr>)
   \<and> safeExecute demo_bot (newContext (demo_message ''hi'' None None)) fail_handler demo_world =
     (Done (Some (Errorf ''boom'' [])), \<lparr>logs = [], app = [''handler'', ''reporter'']\<rparr>)"
proof -
  let ?c = "newContext (demo_message ''hi'' None None)"
  have d: "deny_handler ?c demo_world =
      (Done (Some (BotError 403 ''Forbidden'' None)), mark ''handler'' demo_world)"
    by (simp add: deny_handler_def)
  have l: "limit_handler ?c demo_world =
      (Done (Some (BotError 429 ''Too Many Requests'' None)), mark ''handler'' demo_world)"
    by (simp add: limit_handler_def)
  have f: "fail_handler ?c demo_world = (Done (Some (Errorf ''boom'' [])), mark ''handler'' demo_world)"
    by (simp add: fail_handler_def)
  have r: "errorHandler demo_bot = Some demo_reporter \<and>
      demo_reporter ?c (Errorf ''boom'' []) (mark ''handler'' demo_world) =
        (Done (), mark ''reporter'' (mark ''handler'' demo_world))"
    by (simp add: demo_bot_def demo_reporter_def)
  from guard_classifies_returned_error [of deny_handler ?c demo_world _ _ demo_bot, OF d]
       guard_classifies_returned_error [of limit_handler ?c demo_world _ _ demo_bot, OF l]
       guard_classifies_returned_error [of fail_handler ?c demo_world _ _ demo_bot, OF f] r
  show ?thesis
    by (simp add: mark_def demo_world_def logf_def newContext_def demo_message_def demo_user_def)
qed

text \<open>
  Claim C3. Let the handler panic with value \<open>r\<close>, leaving the world \<open>w1\<close>. The guard
  recovers the panic: it logs it, builds the synthetic error
  \<^verbatim>\<open>fmt.Errorf("handler panic: %v", r)\<close> and, when a reporter is registered and returns
  normally, has run it exactly once, on the Context and that error (the final world is
  the reporter's result); the guard then returns normally (\<open>Done\<close>, not \<open>Panic\<close>). With
  no reporter registered the guard only logs and returns normally.
\<close>

theorem guard_contains_panic:
  assumes "handler ctx w = (Panic r, w1)"
  shows "(\<forall>eh w2. errorHandler b = Some eh \<and>
             eh ctx (Errorf ''handler panic: %v'' [ArgPanic r])
                (logf Error ''Panic in handler execution:'' [ArgPanic r] w1) = (Done (), w2) \<longrightarrow>
             safeExecute b ctx handler w = (Done None, w2))
       \<and> (errorHandler b = None \<longrightarrow>
             safeExecute b ctx handler w =
               (Done None, logf Error ''Panic in handler execution:'' [ArgPanic r] w1))"
  by (simp add: safeExecute_panicked [of handler ctx w r w1 b, OF assms] report_def)

theorem guard_contains_panic_witness:
  "safeExecute demo_bot (newContext (demo_message ''hi'' None None)) panic_handler demo_world =
     (Done None,
      \<lparr>logs = [(Error, ''Panic in handler execution:'', [ArgPanic ''index out of range''])],
       app = [''handler'', ''reporter'']\<rparr>)
   \<and> safeExecute (demo_bot\<lparr>errorHandler := None\<rparr>) (newContext (demo_message ''hi'' None None))
       panic_handler demo_world =
     (Done None,
      \<lparr>logs = [(Error, ''Panic in handler execution:'', [ArgPanic ''index out of range''])],
       app = [''handler'']\<rparr>)"
proof -
  let ?c = "newContext (demo_message ''hi'' None None)"
  have p: "panic_handler ?c demo_world = (Panic ''index out of range'', mark ''handler'' demo_world)"
    by (simp add: panic_handler_def)
  have r: "errorHandler demo_bot = Some demo_reporter \<and>
      demo_reporter ?c (Errorf ''handler panic: %v'' [ArgPanic ''index out of range''])
        (logf Error ''Panic in handler execution:'' [ArgPanic ''index out of range'']
           (mark ''handler'' demo_world)) =
      (Done (), mark ''reporter''
         (logf Error ''Panic in handler execution:'' [ArgPanic ''index out of range'']
            (mark ''handler'' demo_world)))"
    by (simp add: demo_bot_def demo_reporter_def)
  from guard_contains_panic [of panic_handler ?c demo_world _ _ demo_bot, OF p]
       guard_contains_panic [of panic_handler ?c demo_world _ _ "demo_bot\<lparr>errorHandler := None\<rparr>", OF p]
       r
  show ?thesis
    by (simp add: mark_def demo_world_def logf_def)
qed

text \<open>
  Claim C6, as stated, fails: after a handler panic the guard returns \<^verbatim>\<open>nil\<close>, not the
  synthetic error. The demo handler panics, the reporter receives the synthetic error
  (its mark is in the world), and the value returned to the caller is \<open>Done None\<close>.
\<close>

theorem guard_panic_error_not_propagated:
  "panic_handler (newContext (demo_message ''hi'' None None)) demo_world =
     (Panic ''index out of range'', \<lparr>logs = [], app = [''handler'']\<rparr>)
   \<and> errorHandler demo_bot = Some demo_reporter
   \<and> fst (safeExecute demo_bot (newContext (demo_message ''hi'' None None)) panic_handler demo_world) =
       Done None
   \<and> app (snd (safeExecute demo_bot (newContext (demo_message ''hi'' None None)) panic_handler
              demo_world)) = [''handler'', ''reporter'']"
  by (simp add: safeExecute_def safeExecute_body_def report_def panic_handler_def demo_bot_def
      demo_reporter_def mark_def demo_world_def logf_def)

text \<open>
  Claim C6, amended. When a handler panics under the guard, the synthetic error that
  carries the fault's description is handed to the fallback reporter only; it is never
  propagated: the guard never returns a non-nil error to its caller, and it returns
  \<^verbatim>\<open>nil\<close> whenever the reporter is absent or returns normally.
\<close>

theorem guard_panic_returns_nil:
  assumes "handler ctx w = (Panic r, w1)"
  shows "(\<forall>e. fst (safeExecute b ctx handler w) \<noteq> Done (Some e))
       \<and> (\<forall>w2. report b ctx (Errorf ''handler panic: %v'' [ArgPanic r])
                  (logf Error ''Panic in handler execution:'' [ArgPanic r] w1) = (Done (), w2) \<longrightarrow>
               safeExecute b ctx handler w = (Done None, w2))"
  by (simp add: safeExecute_panicked [of handler ctx w r w1 b, OF assms]
      split: prod.splits completion.splits)

theorem guard_panic_returns_nil_witness:
  "fst (safeExecute demo_bot (newContext (demo_message ''hi'' None None)) panic_handler demo_world)
     \<noteq> Done (Some (Errorf ''handler panic: %v'' [ArgPanic ''index out of range'']))
   \<and> safeExecute demo_bot (newContext (demo_message ''hi'' None None)) panic_handler demo_world =
     (Done None,
      \<lparr>logs = [(Error, ''Panic in handler execution:'', [ArgPanic ''index out of range''])],
       app = [''handler'', ''reporter'']\<rparr>)"
proof -
  let ?c = "newContext (demo_message ''hi'' None None)"
  have p: "panic_handler ?c demo_world = (Panic ''index out of range'', mark ''handler'' demo_world)"
    by (simp add: panic_handler_def)
  have r: "report demo_bot ?c (Errorf ''handler panic: %v'' [ArgPanic ''index out of range''])
        (logf Error ''Panic in handler execution:'' [ArgPanic ''index out of range'']
           (mark ''handler'' demo_world)) =
      (Done (), mark ''reporter''
         (logf Error ''Panic in handler execution:'' [ArgPanic ''index out of range'']
            (mark ''handler'' demo_world)))"
    by (simp add: report_def demo_bot_def demo_reporter_def)
  from guard_panic_returns_nil [of panic_handler ?c demo_world _ _ demo_bot, OF p] r
  have "(\<forall>e. fst (safeExecute demo_bot ?c panic_handler demo_world) \<noteq> Done (Some e))
      \<and> safeExecute demo_bot ?c panic_handler demo_world =
          (Done None, mark ''reporter''
             (logf Error ''Panic in handler execution:'' [ArgPanic ''index out of range'']
                (mark ''handler'' demo_world)))"
    by simp
  then show ?thesis
    by (simp add: mark_def demo_world_def logf_def)
qed

section \<open>Properties of the Command and Content Router\<close>

subsection \<open>Splitting\<close>

lemma Split_not_Nil: "Split s c \<noteq> []"
  by (induction s) auto

lemma Split_append: "c \<notin> set a \<Longrightarrow> Split (a @ c # rest) c = a # Split rest c"
  by (induction a) auto

lemma Split_no_sep: "c \<notin> set s \<Longrightarrow> Split s c = [s]"
  by (induction s) auto

lemma hd_Split: "hd (Split s c) = takeWhile (\<lambda>x. x \<noteq> c) s"
  by (induction s) auto

lemma length_Split: "length (Split s c) = Suc (count_list s c)"
  by (induction s) (auto simp: Split_not_Nil)

lemma takeWhile_twice: "takeWhile P (takeWhile Q xs) = takeWhile (\<lambda>x. P x \<and> Q x) xs"
  by (induction xs) auto

text \<open>
  What the command branch computes from a text \<open>/t\<close>: \<^verbatim>\<open>command[1]\<close> is the spec's
  command name, and neither length check of the branch can fail, because the first
  space-separated part starts with the slash and so splits into at least two pieces.
\<close>

lemma command_parts:
  assumes "tx = CHR ''/'' # t"
  shows "Split (Split tx CHR '' '' ! 0) CHR ''/'' ! 1 = command_name tx"
    and "1 < length (Split (Split tx CHR '' '' ! 0) CHR ''/'')"
    and "\<not> length (Split tx CHR '' '') < 1"
proof -
  let ?u = "takeWhile (\<lambda>x. x \<noteq> CHR '' '') t"
  have p0: "Split tx CHR '' '' ! 0 = CHR ''/'' # ?u"
    using hd_Split [of tx "CHR '' ''"] Split_not_Nil [of tx "CHR '' ''"] assms
    by (simp add: hd_conv_nth)
  have s: "Split (Split tx CHR '' '' ! 0) CHR ''/'' = [] # Split ?u CHR ''/''"
    by (simp add: p0)
  show "Split (Split tx CHR '' '' ! 0) CHR ''/'' ! 1 = command_name tx"
  proof -
    have "Split (Split tx CHR '' '' ! 0) CHR ''/'' ! 1 = Split ?u CHR ''/'' ! 0"
      by (simp only: s) simp
    also have "\<dots> = hd (Split ?u CHR ''/'')"
      using Split_not_Nil [of ?u "CHR ''/''"] by (simp add: hd_conv_nth)
    also have "\<dots> = takeWhile (\<lambda>x. x \<noteq> CHR ''/'' \<and> x \<noteq> CHR '' '') t"
      by (simp add: hd_Split takeWhile_twice)
    also have "\<dots> = command_name tx"
      by (simp add: command_name_def assms)
    finally show ?thesis .
  qed
  show "1 < length (Split (Split tx CHR '' '' ! 0) CHR ''/'')"
    by (simp add: s length_Split)
  show "\<not> length (Split tx CHR '' '') < 1"
    by (simp add: length_Split)
qed

lemma HasPrefix_slash: "HasPrefix tx ''/'' = (\<exists>t. tx = CHR ''/'' # t)"
  by (cases tx) (auto simp: HasPrefix_def)

subsection \<open>Commands\<close>

text \<open>
  Every text that starts with a slash is dispatched on its command name: a registered
  handler runs under the guard with the argument tokens in its Context, and an
  unregistered name yields the unknown-command error (code 404) with no handler and no
  reporter run (the world only gains the debug lines).
\<close>

lemma command_dispatch_text:
  assumes "HasPrefix (msg_Text m) ''/''"
  shows "handleMessageUpdate b (Some m) w =
     (case lookup (commandHandler b) (command_name (msg_Text m)) of
        Some handler \<Rightarrow>
          recoverUpdate
            (safeExecute b ((newContext m)\<lparr>ctx_Args := command_args (msg_Text m)\<rparr>) handler
               (logf Info ''Executing command: %s'' [ArgStr (command_name (msg_Text m))]
                  (command_logs (msg_Text m) w)))
      | None \<Rightarrow>
          (Some (BotError 404 ''Unknown command''
                   (Some (Errorf ''command '%s' not found'' [ArgStr (command_name (msg_Text m))]))),
           command_logs (msg_Text m) w))"
proof -
  obtain t where t: "msg_Text m = CHR ''/'' # t"
    using assms by (auto simp: HasPrefix_slash)
  note cp = command_parts [OF t]
  have args: "(if 1 < length (Split (msg_Text m) CHR '' '')
               then (newContext m)\<lparr>ctx_Args := drop 1 (Split (msg_Text m) CHR '' '')\<rparr>
               else newContext m) = (newContext m)\<lparr>ctx_Args := command_args (msg_Text m)\<rparr>"
    by (cases "Split (msg_Text m) CHR '' ''") (auto simp: command_args_def newContext_def)
  show ?thesis
    unfolding handleMessageUpdate_def handleCommand_def
    using assms cp
    by (simp add: Let_def args command_logs_def recoverUpdate_def del: One_nat_def
        split: option.splits)
qed

lemma command_dispatch:
  assumes "msg_Text m = tx" and "HasPrefix tx ''/''"
  shows "handleMessageUpdate b (Some m) w =
     (case lookup (commandHandler b) (command_name tx) of
        Some handler \<Rightarrow>
          recoverUpdate
            (safeExecute b ((newContext m)\<lparr>ctx_Args := command_args tx\<rparr>) handler
               (logf Info ''Executing command: %s'' [ArgStr (command_name tx)]
                  (command_logs tx w)))
      | None \<Rightarrow>
          (Some (BotError 404 ''Unknown command''
                   (Some (Errorf ''command '%s' not found'' [ArgStr (command_name tx)]))),
           command_logs tx w))"
proof -
  have "HasPrefix (msg_Text m) ''/''"
    using assms by simp
  from command_dispatch_text [OF this, of b w] show ?thesis
    unfolding assms(1) .
qed

lemma command_shape:
  assumes "tx = ''/'' @ C @ '' '' @ arg1 @ '' '' @ arg2"
    and "CHR ''/'' \<notin> set C" and "CHR '' '' \<notin> set C"
    and "CHR '' '' \<notin> set arg1" and "CHR '' '' \<notin> set arg2"
  shows "command_name tx = C" and "command_args tx = [arg1, arg2]"
proof -
  have "takeWhile (\<lambda>c. c \<noteq> CHR ''/'' \<and> c \<noteq> CHR '' '') (C @ CHR '' '' # arg1 @ CHR '' '' # arg2) = C"
    using assms(2,3) by (subst takeWhile_append2) auto
  then show "command_name tx = C"
    by (simp add: command_name_def assms(1))
  have "Split ((CHR ''/'' # C) @ CHR '' '' # arg1 @ CHR '' '' # arg2) CHR '' '' =
      (CHR ''/'' # C) # Split (arg1 @ CHR '' '' # arg2) CHR '' ''"
    using assms(3) by (intro Split_append) simp
  then show "command_args tx = [arg1, arg2]"
    using assms(4,5) by (simp add: command_args_def assms(1) Split_append Split_no_sep)
qed

text \<open>
  Claim C1, as stated, fails: it ends the command name at the next slash or
  whitespace, and the code ends it at the next slash or space character only. For the
  text \<^verbatim>\<open>/start\<close>, newline, \<^verbatim>\<open>now\<close> the name in the claim's reading is \<^verbatim>\<open>start\<close>, which
  is registered; the code looks up the whole of \<^verbatim>\<open>start\<close>, newline, \<^verbatim>\<open>now\<close>, finds no
  handler and returns the unknown-command error. No handler has run (no mark).
\<close>

theorem command_name_not_ended_by_newline:
  "spec_command_name ''/start\<newline>now'' = ''start''
   \<and> lookup (commandHandler demo_bot) ''start'' = Some (ok_handler ''start'')
   \<and> handleMessageUpdate demo_bot
       (Some (demo_message ''/start\<newline>now'' None None)) demo_world =
     (Some (BotError 404 ''Unknown command''
              (Some (Errorf ''command '%s' not found'' [ArgStr ''start\<newline>now'']))),
      \<lparr>logs = [(Debug, ''Received message: %s'', [ArgStr ''/start\<newline>now'']),
               (Debug, ''Parsed command: %s'', [ArgStr ''start\<newline>now''])],
       app = []\<rparr>)"
proof -
  let ?tx = "''/start\<newline>now''"
  have t: "msg_Text (demo_message ?tx None None) = ?tx"
    by (simp add: demo_message_def)
  have p: "HasPrefix ?tx ''/''"
    by (simp add: HasPrefix_def)
  have n: "command_name ?tx = ''start\<newline>now''" "command_args ?tx = []"
    by (simp_all add: command_name_def command_args_def)
  have l: "lookup (commandHandler demo_bot) ''start\<newline>now'' = None"
    "lookup (commandHandler demo_bot) ''start'' = Some (ok_handler ''start'')"
    by (simp_all add: lookup_def demo_bot_def)
  have s: "spec_command_name ?tx = ''start''"
    by (simp add: spec_command_name_def is_space_def)
  have "handleMessageUpdate demo_bot (Some (demo_message ?tx None None)) demo_world =
      (Some (BotError 404 ''Unknown command''
               (Some (Errorf ''command '%s' not found'' [ArgStr ''start\<newline>now'']))),
       command_logs ?tx demo_world)"
    unfolding command_dispatch [OF t p] n l by simp
  then show ?thesis
    using s l(2) by (simp add: command_logs_def n logf_def demo_world_def)
qed

text \<open>
  Claim C1, amended. For a text \<^verbatim>\<open>/C arg1 arg2\<close> (the name \<open>C\<close> free of slashes and
  space characters, the arguments free of space characters) and a handler registered
  for \<open>C\<close>, dispatch is one run of the Execution Guard on that handler with a Context
  whose argument list is \<open>[arg1, arg2]\<close>. In general, for every text that starts with a
  slash the name looked up is the token after the leading slash and before the next
  slash or space character (U+0020; a tab or a newline does not end it), compared as
  it stands (case-sensitive, no suffix stripped), and the arguments are the pieces
  between single space characters after the first piece.
\<close>

theorem command_handler_gets_arguments:
  "(msg_Text m = ''/'' @ C @ '' '' @ arg1 @ '' '' @ arg2 \<and>
    CHR ''/'' \<notin> set C \<and> CHR '' '' \<notin> set C \<and> CHR '' '' \<notin> set arg1 \<and> CHR '' '' \<notin> set arg2 \<and>
    lookup (commandHandler b) C = Some handler \<longrightarrow>
      handleMessageUpdate b (Some m) w =
        recoverUpdate
          (safeExecute b ((newContext m)\<lparr>ctx_Args := [arg1, arg2]\<rparr>) handler
             (logf Info ''Executing command: %s'' [ArgStr C] (command_logs (msg_Text m) w))))
   \<and> (HasPrefix (msg_Text m) ''/'' \<longrightarrow>
        handleMessageUpdate b (Some m) w =
          (case lookup (commandHandler b) (command_name (msg_Text m)) of
             Some handler \<Rightarrow>
               recoverUpdate
                 (safeExecute b ((newContext m)\<lparr>ctx_Args := command_args (msg_Text m)\<rparr>) handler
                    (logf Info ''Executing command: %s'' [ArgStr (command_name (msg_Text m))]
                       (command_logs (msg_Text m) w)))
           | None \<Rightarrow>
               (Some (BotError 404 ''Unknown command''
                        (Some (Errorf ''command '%s' not found''
                                 [ArgStr (command_name (msg_Text m))]))),
                command_logs (msg_Text m) w)))"
proof (intro conjI impI)
  assume a: "msg_Text m = ''/'' @ C @ '' '' @ arg1 @ '' '' @ arg2 \<and>
    CHR ''/'' \<notin> set C \<and> CHR '' '' \<notin> set C \<and> CHR '' '' \<notin> set arg1 \<and> CHR '' '' \<notin> set arg2 \<and>
    lookup (commandHandler b) C = Some handler"
  then have n: "command_name (msg_Text m) = C" and g: "command_args (msg_Text m) = [arg1, arg2]"
    using command_shape [of "msg_Text m" C arg1 arg2] by simp_all
  have "HasPrefix (msg_Text m) ''/''"
    using a by (simp add: HasPrefix_def)
  moreover have "lookup (commandHandler b) (command_name (msg_Text m)) = Some handler"
    using a n by simp
  ultimately show "handleMessageUpdate b (Some m) w =
      recoverUpdate
        (safeExecute b ((newContext m)\<lparr>ctx_Args := [arg1, arg2]\<rparr>) handler
           (logf Info ''Executing command: %s'' [ArgStr C] (command_logs (msg_Text m) w)))"
    using n g by (simp add: command_dispatch [OF refl])
next
  assume "HasPrefix (msg_Text m) ''/''"
  then show "handleMessageUpdate b (Some m) w =
      (case lookup (commandHandler b) (command_name (msg_Text m)) of
         Some handler \<Rightarrow>
           recoverUpdate
             (safeExecute b ((newContext m)\<lparr>ctx_Args := command_args (msg_Text m)\<rparr>) handler
                (logf Info ''Executing command: %s'' [ArgStr (command_name (msg_Text m))]
                   (command_logs (msg_Text m) w)))
       | None \<Rightarrow>
           (Some (BotError 404 ''Unknown command''
                    (Some (Errorf ''command '%s' not found''
                             [ArgStr (command_name (msg_Text m))]))),
            command_logs (msg_Text m) w))"
    by (rule command_dispatch [OF refl])
qed

lemma demo_start_run:
  "recoverUpdate (safeExecute demo_bot c (ok_handler s) w) =
     (None, mark (s @ '':'' @ Join (ctx_Args c) '','') w)"
  by (simp add: recoverUpdate_def safeExecute_def safeExecute_body_def ok_handler_def)

theorem command_handler_gets_arguments_witness:
  "handleMessageUpdate demo_bot (Some (demo_message ''/start a b'' None None)) demo_world =
     (None,
      \<lparr>logs = [(Debug, ''Received message: %s'', [ArgStr ''/start a b'']),
               (Debug, ''Parsed command: %s'', [ArgStr ''start'']),
               (Debug, ''Arguments: [%s]'', [ArgStr ''a, b'']),
               (Info, ''Executing command: %s'', [ArgStr ''start''])],
       app = [''start:a,b'']\<rparr>)
   \<and> fst (handleMessageUpdate demo_bot (Some (demo_message ''/Start a b'' None None)) demo_world) =
       Some (BotError 404 ''Unknown command''
               (Some (Errorf ''command '%s' not found'' [ArgStr ''Start''])))
   \<and> fst (handleMessageUpdate demo_bot (Some (demo_message ''/start@tgxbot'' None None)) demo_world) =
       Some (BotError 404 ''Unknown command''
               (Some (Errorf ''command '%s' not found'' [ArgStr ''start@tgxbot''])))"
proof -
  have t: "msg_Text (demo_message ''/start a b'' None None) = ''/'' @ ''start'' @ '' '' @ ''a'' @ '' '' @ ''b''"
    by (simp add: demo_message_def)
  have h: "lookup (commandHandler demo_bot) ''start'' = Some (ok_handler ''start'')"
    by (simp add: lookup_def demo_bot_def)
  have l: "command_logs ''/start a b'' demo_world =
      \<lparr>logs = [(Debug, ''Received message: %s'', [ArgStr ''/start a b'']),
               (Debug, ''Parsed command: %s'', [ArgStr ''start'']),
               (Debug, ''Arguments: [%s]'', [ArgStr ''a, b''])], app = []\<rparr>"
    by (simp add: command_logs_def command_args_def command_name_def logf_def demo_world_def)
  have n1: "command_name ''/Start a b'' = ''Start''" and n2: "command_name ''/start@tgxbot'' = ''start@tgxbot''"
    by (simp_all add: command_name_def)
  have u1: "lookup (commandHandler demo_bot) ''Start'' = None"
    and u2: "lookup (commandHandler demo_bot) ''start@tgxbot'' = None"
    by (simp_all add: lookup_def demo_bot_def)
  from command_handler_gets_arguments
         [of "demo_message ''/start a b'' None None" "''start''" "''a''" "''b''" demo_bot
             "ok_handler ''start''" demo_world]
       command_handler_gets_arguments
         [of "demo_message ''/Start a b'' None None" _ _ _ demo_bot _ demo_world]
       command_handler_gets_arguments
         [of "demo_message ''/start@tgxbot'' None None" _ _ _ demo_bot _ demo_world]
       t h
  show ?thesis
    by (simp add: demo_start_run l n1 n2 u1 u2 HasPrefix_def mark_def logf_def demo_message_def)
qed

text \<open>
  Claim C5 fails on the code. \<^verbatim>\<open>strings.Split("/", "/")\<close> has two elements (both empty),
  so for the text \<^verbatim>\<open>/\<close> the check \<^verbatim>\<open>len(command) <= 1\<close> does not fire: the empty
  command name is looked up, and the result is the unknown-command error (code 404),
  or a run of the handler registered under the empty name. The check cannot fire for
  any text that starts with a slash.
\<close>

theorem lone_slash_is_unknown_command:
  "(msg_Text m = ''/'' \<longrightarrow>
      handleMessageUpdate b (Some m) w =
        (case lookup (commandHandler b) [] of
           Some handler \<Rightarrow>
             recoverUpdate
               (safeExecute b (newContext m) handler
                  (logf Info ''Executing command: %s'' [ArgStr []]
                     (logf Debug ''Parsed command: %s'' [ArgStr []]
                        (logf Debug ''Received message: %s'' [ArgStr ''/''] w))))
         | None \<Rightarrow>
             (Some (BotError 404 ''Unknown command''
                      (Some (Errorf ''command '%s' not found'' [ArgStr []]))),
              logf Debug ''Parsed command: %s'' [ArgStr []]
                (logf Debug ''Received message: %s'' [ArgStr ''/''] w))))
   \<and> (HasPrefix tx ''/'' \<longrightarrow> \<not> length (Split (Split tx CHR '' '' ! 0) CHR ''/'') \<le> 1)"
proof (intro conjI impI)
  assume a: "msg_Text m = ''/''"
  have p: "HasPrefix ''/'' ''/''"
    by (simp add: HasPrefix_def)
  note d = command_dispatch [OF a p, of b w]
  have e: "command_name ''/'' = []" "command_args ''/'' = []"
    "command_logs ''/'' w = logf Debug ''Parsed command: %s'' [ArgStr []]
        (logf Debug ''Received message: %s'' [ArgStr ''/''] w)"
    "(newContext m)\<lparr>ctx_Args := []\<rparr> = newContext m"
    by (simp_all add: command_name_def command_args_def command_logs_def newContext_def)
  show "handleMessageUpdate b (Some m) w =
      (case lookup (commandHandler b) [] of
         Some handler \<Rightarrow>
           recoverUpdate
             (safeExecute b (newContext m) handler
                (logf Info ''Executing command: %s'' [ArgStr []]
                   (logf Debug ''Parsed command: %s'' [ArgStr []]
                      (logf Debug ''Received message: %s'' [ArgStr ''/''] w))))
       | None \<Rightarrow>
           (Some (BotError 404 ''Unknown command''
                    (Some (Errorf ''command '%s' not found'' [ArgStr []]))),
            logf Debug ''Parsed command: %s'' [ArgStr []]
              (logf Debug ''Received message: %s'' [ArgStr ''/''] w)))"
    unfolding d e ..
next
  assume "HasPrefix tx ''/''"
  then obtain t where "tx = CHR ''/'' # t"
    by (auto simp: HasPrefix_slash)
  from command_parts(2) [OF this]
  show "\<not> length (Split (Split tx CHR '' '' ! 0) CHR ''/'') \<le> 1"
    by simp
qed

theorem lone_slash_is_unknown_command_witness:
  "handleMessageUpdate demo_bot (Some (demo_message ''/'' None None)) demo_world =
     (Some (BotError 404 ''Unknown command'' (Some (Errorf ''command '%s' not found'' [ArgStr []]))),
      \<lparr>logs = [(Debug, ''Received message: %s'', [ArgStr ''/'']),
               (Debug, ''Parsed command: %s'', [ArgStr []])],
       app = []\<rparr>)
   \<and> length (Split (Split ''/'' CHR '' '' ! 0) CHR ''/'') = 2"
proof -
  have u: "lookup (commandHandler demo_bot) [] = None"
    by (simp add: lookup_def demo_bot_def)
  from lone_slash_is_unknown_command [of "demo_message ''/'' None None" demo_bot demo_world "''/''"]
  show ?thesis
    by (simp add: u demo_message_def logf_def demo_world_def HasPrefix_def)
qed

subsection \<open>Content messages\<close>

text \<open>
  The \<^verbatim>\<open>switch\<close> of the code against the spec's reading: a message that is not a
  command is dispatched on its first populated content field in priority order, and
  on that field only.
\<close>

lemma find_filter:
  "List.find P xs = (case filter P xs of [] \<Rightarrow> None | x # _ \<Rightarrow> Some x)"
  by (induction xs) auto

lemma handleContent_first:
  "handleContent b m c w =
     (case first_populated m of
        None \<Rightarrow>
          (Done (Some (BotError 400
             ''Unsupported message type received. No handler is available for this message type.''
             (Some (Errorf ''no handler found for message type: %v'' [ArgMsg m])))), w)
      | Some k \<Rightarrow>
          (case lookup (messageHandlers b) (tag k) of
             None \<Rightarrow> (Done None, w)
           | Some handler \<Rightarrow> safeExecute b (attach k m c) handler w))"
  by (simp add: handleContent_def first_populated_def priority_def
      if_distrib [of "case_option x y" for x y] cong: if_cong option.case_cong
      split del: if_split)

lemma content_dispatch:
  assumes "\<not> HasPrefix (msg_Text m) ''/''"
  shows "handleMessageUpdate b (Some m) w =
     (case first_populated m of
        None \<Rightarrow>
          (Some (BotError 400
             ''Unsupported message type received. No handler is available for this message type.''
             (Some (Errorf ''no handler found for message type: %v'' [ArgMsg m]))), w)
      | Some k \<Rightarrow>
          (case lookup (messageHandlers b) (tag k) of
             None \<Rightarrow> (None, w)
           | Some handler \<Rightarrow> recoverUpdate (safeExecute b (attach k m (newContext m)) handler w)))"
  using assms
  by (simp add: handleMessageUpdate_def handleContent_first recoverUpdate_def split: option.splits)

text \<open>
  Claim C7, as stated, fails. The demo message has a photo and a video; the demo bot
  has a handler for \<^verbatim>\<open>"Video"\<close> and none for \<^verbatim>\<open>"Photo"\<close>. The router stops at the
  photo: it returns \<^verbatim>\<open>nil\<close> and leaves the world untouched, whereas a run of the video
  handler would have left its mark.
\<close>

theorem content_no_advance_to_next_field:
  "populated (demo_message [] (Some 10) (Some 20)) CPhoto
   \<and> lookup (messageHandlers demo_bot) ''Photo'' = None
   \<and> populated (demo_message [] (Some 10) (Some 20)) CVideo
   \<and> lookup (messageHandlers demo_bot) ''Video'' = Some (ok_handler ''video'')
   \<and> handleMessageUpdate demo_bot (Some (demo_message [] (Some 10) (Some 20))) demo_world =
       (None, demo_world)
   \<and> recoverUpdate
       (safeExecute demo_bot
          (attach CVideo (demo_message [] (Some 10) (Some 20))
             (newContext (demo_message [] (Some 10) (Some 20))))
          (ok_handler ''video'') demo_world) =
       (None, \<lparr>logs = [], app = [''video:'']\<rparr>)
   \<and> handleMessageUpdate demo_bot (Some (demo_message [] (Some 10) (Some 20))) demo_world \<noteq>
       recoverUpdate
         (safeExecute demo_bot
            (attach CVideo (demo_message [] (Some 10) (Some 20))
               (newContext (demo_message [] (Some 10) (Some 20))))
            (ok_handler ''video'') demo_world)"
proof -
  let ?m = "demo_message [] (Some 10) (Some 20)"
  have p: "\<not> HasPrefix (msg_Text ?m) ''/''"
    by (simp add: HasPrefix_def demo_message_def)
  have f: "first_populated ?m = Some CPhoto"
    by (simp add: first_populated_def priority_def demo_message_def)
  have l: "lookup (messageHandlers demo_bot) ''Photo'' = None"
    "lookup (messageHandlers demo_bot) ''Video'' = Some (ok_handler ''video'')"
    by (simp_all add: lookup_def demo_bot_def)
  have h: "handleMessageUpdate demo_bot (Some ?m) demo_world = (None, demo_world)"
    by (simp add: content_dispatch [OF p] f l)
  have v: "recoverUpdate (safeExecute demo_bot (attach CVideo ?m (newContext ?m))
        (ok_handler ''video'') demo_world) = (None, \<lparr>logs = [], app = [''video:'']\<rparr>)"
    by (simp add: demo_start_run mark_def demo_world_def newContext_def)
  have q: "populated ?m CPhoto" "populated ?m CVideo"
    by (simp_all add: demo_message_def)
  show ?thesis
    unfolding h v using q l by (simp add: demo_world_def)
qed

text \<open>
  Claim C7, amended. For a message that is not a command, the router dispatches on the
  first populated content field only: if no handler is registered for that field's
  tag, no handler is invoked and dispatch returns \<^verbatim>\<open>nil\<close> with the world unchanged,
  whatever other fields are populated and whatever handlers are registered for them.
\<close>

theorem content_stops_at_first_populated:
  assumes "\<not> HasPrefix (msg_Text m) ''/''"
    and "first_populated m = Some k"
    and "lookup (messageHandlers b) (tag k) = None"
  shows "handleMessageUpdate b (Some m) w = (None, w)"
  using assms by (simp add: content_dispatch)

theorem content_stops_at_first_populated_witness:
  "first_populated (demo_message [] (Some 10) (Some 20)) = Some CPhoto
   \<and> populated (demo_message [] (Some 10) (Some 20)) CVideo
   \<and> lookup (messageHandlers demo_bot) (tag CVideo) \<noteq> None
   \<and> handleMessageUpdate demo_bot (Some (demo_message [] (Some 10) (Some 20))) demo_world =
       (None, demo_world)"
proof -
  have p: "\<not> HasPrefix (msg_Text (demo_message [] (Some 10) (Some 20))) ''/''"
    by (simp add: HasPrefix_def demo_message_def)
  have f: "first_populated (demo_message [] (Some 10) (Some 20)) = Some CPhoto"
    by (simp add: first_populated_def priority_def demo_message_def)
  have n: "lookup (messageHandlers demo_bot) (tag CPhoto) = None"
    by (simp add: lookup_def demo_bot_def)
  from content_stops_at_first_populated [OF p f n, of demo_world] f
  show ?thesis
    by (simp add: lookup_def demo_bot_def demo_message_def)
qed

text \<open>
  Claim C8. For a message that is not a command, let \<open>k\<close> be the first populated
  content field in the order text, photo, video, voice, document, animation, sticker,
  audio, video-note (with exactly one field populated, \<open>k\<close> is that field). If a
  handler is registered for the tag of \<open>k\<close>, dispatch is one run of the Execution Guard
  on that handler with the Context's field for \<open>k\<close> set from the message; if none is
  registered, no handler runs and \<^verbatim>\<open>nil\<close> is returned with the world unchanged. If no
  content field is populated, the unsupported-message-type error (code 400) is returned
  and no handler runs. The Context handed to the handler is spelled out field by
  field: the text, sender, message id and chat of the message, no arguments, and of
  the media fields exactly the one dispatched on.
\<close>

theorem content_dispatch_by_priority:
  assumes "\<not> HasPrefix (msg_Text m) ''/''"
  shows "(\<forall>k. filter (populated m) priority = [k] \<longrightarrow> first_populated m = Some k)
       \<and> (\<forall>k handler. first_populated m = Some k \<and>
             lookup (messageHandlers b) (tag k) = Some handler \<longrightarrow>
             handleMessageUpdate b (Some m) w =
               recoverUpdate (safeExecute b (attach k m (newContext m)) handler w))
       \<and> (\<forall>k. first_populated m = Some k \<and> lookup (messageHandlers b) (tag k) = None \<longrightarrow>
             handleMessageUpdate b (Some m) w = (None, w))
       \<and> (filter (populated m) priority = [] \<longrightarrow>
             handleMessageUpdate b (Some m) w =
               (Some (BotError 400
                  ''Unsupported message type received. No handler is available for this message type.''
                  (Some (Errorf ''no handler found for message type: %v'' [ArgMsg m]))), w))
       \<and> (\<forall>k. attach k m (newContext m) =
             \<lparr> ctx_Text = msg_Text m,
               ctx_UserID = user_Id (msg_From m),
               ctx_Username = user_Username (msg_From m),
               ctx_MessageId = msg_MessageId m,
               ctx_ChatID = chat_Id (msg_Chat m),
               ctx_Args = [],
               ctx_Photo = (if k = CPhoto then msg_Photo m else None),
               ctx_Video = (if k = CVideo then msg_Video m else None),
               ctx_Voice = (if k = CVoice then msg_Voice m else None),
               ctx_Document = (if k = CDocument then msg_Document m else None),
               ctx_Animation = (if k = CAnimation then msg_Animation m else None),
               ctx_Sticker = (if k = CSticker then msg_Sticker m else None),
               ctx_Audio = (if k = CAudio then msg_Audio m else None),
               ctx_VideoNote = (if k = CVideoNote then msg_VideoNote m else None) \<rparr>)"
proof (intro conjI allI impI)
  fix k assume "filter (populated m) priority = [k]"
  then show "first_populated m = Some k"
    by (simp add: first_populated_def find_filter)
next
  fix k handler
  assume "first_populated m = Some k \<and> lookup (messageHandlers b) (tag k) = Some handler"
  then show "handleMessageUpdate b (Some m) w =
      recoverUpdate (safeExecute b (attach k m (newContext m)) handler w)"
    using assms by (simp add: content_dispatch)
next
  fix k assume "first_populated m = Some k \<and> lookup (messageHandlers b) (tag k) = None"
  then show "handleMessageUpdate b (Some m) w = (None, w)"
    using assms by (simp add: content_dispatch)
next
  assume "filter (populated m) priority = []"
  then have "first_populated m = None"
    by (simp add: first_populated_def find_filter)
  then show "handleMessageUpdate b (Some m) w =
      (Some (BotError 400
         ''Unsupported message type received. No handler is available for this message type.''
         (Some (Errorf ''no handler found for message type: %v'' [ArgMsg m]))), w)"
    using assms by (simp add: content_dispatch)
next
  fix k
  show "attach k m (newContext m) =
      \<lparr> ctx_Text = msg_Text m,
        ctx_UserID = user_Id (msg_From m),
        ctx_Username = user_Username (msg_From m),
        ctx_MessageId = msg_MessageId m,
        ctx_ChatID = chat_Id (msg_Chat m),
        ctx_Args = [],
        ctx_Photo = (if k = CPhoto then msg_Photo m else None),
        ctx_Video = (if k = CVideo then msg_Video m else None),
        ctx_Voice = (if k = CVoice then msg_Voice m else None),
        ctx_Document = (if k = CDocument then msg_Document m else None),
        ctx_Animation = (if k = CAnimation then msg_Animation m else None),
        ctx_Sticker = (if k = CSticker then msg_Sticker m else None),
        ctx_Audio = (if k = CAudio then msg_Audio m else None),
        ctx_VideoNote = (if k = CVideoNote then msg_VideoNote m else None) \<rparr>"
    by (cases k) (simp_all add: newContext_def)
qed

lemma demo_guard_run:
  assumes "handler c w = (Done None, w')"
  shows "recoverUpdate (safeExecute b c handler w) = (None, w')"
  using assms by (simp add: recoverUpdate_def safeExecute_def safeExecute_body_def)

theorem content_dispatch_by_priority_witness:
  "handleMessageUpdate demo_bot (Some (demo_message [] None (Some 20))) demo_world =
     (None, \<lparr>logs = [], app = [''video:'']\<rparr>)
   \<and> ctx_Video (attach CVideo (demo_message [] None (Some 20))
                  (newContext (demo_message [] None (Some 20)))) = Some 20
   \<and> handleMessageUpdate demo_bot (Some (demo_message [] (Some 10) None)) demo_world =
       (None, demo_world)
   \<and> fst (handleMessageUpdate demo_bot (Some (demo_message [] None None)) demo_world) =
       Some (BotError 400
         ''Unsupported message type received. No handler is available for this message type.''
         (Some (Errorf ''no handler found for message type: %v'' [ArgMsg (demo_message [] None None)])))
   \<and> handleMessageUpdate echo_bot (Some (demo_message ''hello'' None None)) demo_world =
       (None, \<lparr>logs = [], app = [''text:hello'']\<rparr>)
   \<and> handleMessageUpdate echo_bot (Some (demo_message [] None (Some 3))) demo_world =
       (None, \<lparr>logs = [], app = [''video:###'']\<rparr>)"
proof -
  have p: "\<not> HasPrefix (msg_Text (demo_message [] v p)) ''/''" for v p
    by (simp add: HasPrefix_def demo_message_def)
  have ph: "\<not> HasPrefix (msg_Text (demo_message ''hello'' None None)) ''/''"
    by (simp add: HasPrefix_def demo_message_def)
  have one: "filter (populated (demo_message [] None (Some 20))) priority = [CVideo]"
    "filter (populated (demo_message [] (Some 10) None)) priority = [CPhoto]"
    "filter (populated (demo_message [] None None)) priority = []"
    "filter (populated (demo_message ''hello'' None None)) priority = [CText]"
    "filter (populated (demo_message [] None (Some 3))) priority = [CVideo]"
    by (simp_all add: priority_def demo_message_def)
  have reg: "lookup (messageHandlers demo_bot) (tag CVideo) = Some (ok_handler ''video'')"
    "lookup (messageHandlers demo_bot) (tag CPhoto) = None"
    "lookup (messageHandlers echo_bot) (tag CText) = Some text_handler"
    "lookup (messageHandlers echo_bot) (tag CVideo) = Some video_handler"
    by (simp_all add: lookup_def demo_bot_def echo_bot_def)
  let ?v = "demo_message [] None (Some 20)" and ?p = "demo_message [] (Some 10) None"
    and ?n = "demo_message [] None None" and ?t = "demo_message ''hello'' None None"
    and ?u = "demo_message [] None (Some 3)"
  note v = content_dispatch_by_priority [OF p, of None "Some 20" demo_bot demo_world]
  note f = content_dispatch_by_priority [OF p, of "Some 10" None demo_bot demo_world]
  note n = content_dispatch_by_priority [OF p, of None None demo_bot demo_world]
  note t = content_dispatch_by_priority [OF ph, of echo_bot demo_world]
  note u = content_dispatch_by_priority [OF p, of None "Some 3" echo_bot demo_world]
  have fv: "first_populated ?v = Some CVideo"
    by (rule v [THEN conjunct1, rule_format, OF one(1)])
  have r1: "handleMessageUpdate demo_bot (Some ?v) demo_world =
      recoverUpdate (safeExecute demo_bot (attach CVideo ?v (newContext ?v)) (ok_handler ''video'')
        demo_world)"
    by (rule v [THEN conjunct2, THEN conjunct1, rule_format, OF conjI [OF fv reg(1)]])
  have fp: "first_populated ?p = Some CPhoto"
    by (rule f [THEN conjunct1, rule_format, OF one(2)])
  have r2: "handleMessageUpdate demo_bot (Some ?p) demo_world = (None, demo_world)"
    by (rule f [THEN conjunct2, THEN conjunct2, THEN conjunct1, rule_format,
          OF conjI [OF fp reg(2)]])
  have r3: "handleMessageUpdate demo_bot (Some ?n) demo_world =
      (Some (BotError 400
         ''Unsupported message type received. No handler is available for this message type.''
         (Some (Errorf ''no handler found for message type: %v'' [ArgMsg ?n]))), demo_world)"
    by (rule n [THEN conjunct2, THEN conjunct2, THEN conjunct2, THEN conjunct1, rule_format,
          OF one(3)])
  have ft: "first_populated ?t = Some CText"
    by (rule t [THEN conjunct1, rule_format, OF one(4)])
  have ct: "ctx_Text (attach CText ?t (newContext ?t)) = ''hello''"
    unfolding t [THEN conjunct2, THEN conjunct2, THEN conjunct2, THEN conjunct2, rule_format]
    by (simp add: demo_message_def)
  have r4: "handleMessageUpdate echo_bot (Some ?t) demo_world =
      recoverUpdate (safeExecute echo_bot (attach CText ?t (newContext ?t)) text_handler demo_world)"
    by (rule t [THEN conjunct2, THEN conjunct1, rule_format, OF conjI [OF ft reg(3)]])
  have fu: "first_populated ?u = Some CVideo"
    by (rule u [THEN conjunct1, rule_format, OF one(5)])
  have cu: "ctx_Video (attach CVideo ?u (newContext ?u)) = Some 3"
    unfolding u [THEN conjunct2, THEN conjunct2, THEN conjunct2, THEN conjunct2, rule_format]
    by (simp add: demo_message_def)
  have r5: "handleMessageUpdate echo_bot (Some ?u) demo_world =
      recoverUpdate (safeExecute echo_bot (attach CVideo ?u (newContext ?u)) video_handler demo_world)"
    by (rule u [THEN conjunct2, THEN conjunct1, rule_format, OF conjI [OF fu reg(4)]])
  have e4: "recoverUpdate (safeExecute echo_bot (attach CText ?t (newContext ?t)) text_handler
        demo_world) = (None, mark ''text:hello'' demo_world)"
    by (rule demo_guard_run) (simp only: text_handler_def ct, simp)
  have e5: "recoverUpdate (safeExecute echo_bot (attach CVideo ?u (newContext ?u)) video_handler
        demo_world) = (None, mark ''video:###'' demo_world)"
    by (rule demo_guard_run) (simp only: video_handler_def cu, simp add: numeral_3_eq_3)
  show ?thesis
    unfolding r1 r2 r3 r4 r5 e4 e5
    by (simp add: demo_start_run mark_def demo_world_def newContext_def demo_message_def)
qed

section \<open>Properties of the Callback Router\<close>

lemma rangePrefix_none:
  "\<forall>k \<in> fst ` set es. \<not> prefix k d \<Longrightarrow>
   rangePrefix es ctx d w =
     (Done None, logf Warn ''No callback handler found for data: %s'' [ArgStr d] w)"
  by (induction es) (auto simp: HasPrefix_def)

lemma rangePrefix_first:
  "\<forall>k \<in> fst ` set pre. \<not> prefix k d \<Longrightarrow> prefix k d \<Longrightarrow>
   rangePrefix (pre @ (k, h) # post) ctx d w =
     callCallback h ctx (logf Debug ''callback handler called for prfix: %s'' [ArgStr k] w)"
  by (induction pre) (auto simp: HasPrefix_def)

lemma range_of_keys: "range_of m es \<Longrightarrow> fst ` set es = {k. lookup m k \<noteq> None}"
  by (auto simp: range_of_def lookup_def dom_map_of_conv_image_fst [symmetric] dom_def
      split: option.splits)

lemma range_of_entry: "range_of m es \<Longrightarrow> (k, h) \<in> set es \<Longrightarrow> lookup m k = Some h"
  by (auto simp: range_of_def lookup_def split: option.splits)

text \<open>
  Claim C4. Let \<open>es\<close> be the order in which the runtime iterates the callback registry.
  If the query's data is itself a registered key, its handler is the one call made,
  whatever other keys are prefixes of the data and wherever they stand in \<open>es\<close>.
  Otherwise the one call made is to the handler of the first key of \<open>es\<close> that is a
  prefix of the data. If no registered key is a prefix of the data, no handler is
  called: the router logs a warning and returns \<^verbatim>\<open>nil\<close>. In every case the outcome is
  the outcome of at most one handler call.
\<close>

theorem callback_selects_one_handler:
  assumes "range_of (callbackHandlers b) es"
  shows "(\<forall>h. lookup (callbackHandlers b) (cq_Data cb) = Some h \<longrightarrow>
            handleCallbackQuery b es cb w =
              callCallback h (newCallbackContext cb) (logf Debug ''callback handler called'' [] w))
       \<and> (lookup (callbackHandlers b) (cq_Data cb) = None \<longrightarrow>
            (\<forall>pre k h post.
               es = pre @ (k, h) # post \<and> (\<forall>k' \<in> fst ` set pre. \<not> prefix k' (cq_Data cb)) \<and>
               prefix k (cq_Data cb) \<longrightarrow>
               lookup (callbackHandlers b) k = Some h \<and>
               handleCallbackQuery b es cb w =
                 callCallback h (newCallbackContext cb)
                   (logf Debug ''callback handler called for prfix: %s'' [ArgStr k] w)))
       \<and> ((\<forall>k. lookup (callbackHandlers b) k \<noteq> None \<longrightarrow> \<not> prefix k (cq_Data cb)) \<longrightarrow>
            handleCallbackQuery b es cb w =
              (Done None,
               logf Warn ''No callback handler found for data: %s'' [ArgStr (cq_Data cb)] w))
       \<and> ((\<exists>k h. lookup (callbackHandlers b) k = Some h \<and> prefix k (cq_Data cb) \<and>
              handleCallbackQuery b es cb w \<in>
                {callCallback h (newCallbackContext cb) (logf Debug ''callback handler called'' [] w),
                 callCallback h (newCallbackContext cb)
                   (logf Debug ''callback handler called for prfix: %s'' [ArgStr k] w)})
          \<or> handleCallbackQuery b es cb w =
              (Done None,
               logf Warn ''No callback handler found for data: %s'' [ArgStr (cq_Data cb)] w))"
proof (intro conjI allI impI)
  fix h assume "lookup (callbackHandlers b) (cq_Data cb) = Some h"
  then show "handleCallbackQuery b es cb w =
      callCallback h (newCallbackContext cb) (logf Debug ''callback handler called'' [] w)"
    by (simp add: handleCallbackQuery_def)
next
  fix pre k h post
  assume none: "lookup (callbackHandlers b) (cq_Data cb) = None"
    and first: "es = pre @ (k, h) # post \<and> (\<forall>k' \<in> fst ` set pre. \<not> prefix k' (cq_Data cb)) \<and>
               prefix k (cq_Data cb)"
  show "lookup (callbackHandlers b) k = Some h"
    using range_of_entry [OF assms, of k h] first by simp
  show "handleCallbackQuery b es cb w =
      callCallback h (newCallbackContext cb)
        (logf Debug ''callback handler called for prfix: %s'' [ArgStr k] w)"
    using none first by (simp add: handleCallbackQuery_def rangePrefix_first)
next
  assume no: "\<forall>k. lookup (callbackHandlers b) k \<noteq> None \<longrightarrow> \<not> prefix k (cq_Data cb)"
  then have "lookup (callbackHandlers b) (cq_Data cb) = None"
    by auto
  moreover have "\<forall>k \<in> fst ` set es. \<not> prefix k (cq_Data cb)"
    using no range_of_keys [OF assms] by auto
  ultimately show "handleCallbackQuery b es cb w =
      (Done None, logf Warn ''No callback handler found for data: %s'' [ArgStr (cq_Data cb)] w)"
    by (simp add: handleCallbackQuery_def rangePrefix_none)
next
  let ?d = "cq_Data cb" and ?c = "newCallbackContext cb"
  let ?warn = "(Done None, logf Warn ''No callback handler found for data: %s'' [ArgStr ?d] w)"
  show "(\<exists>k h. lookup (callbackHandlers b) k = Some h \<and> prefix k ?d \<and>
            handleCallbackQuery b es cb w \<in>
              {callCallback h ?c (logf Debug ''callback handler called'' [] w),
               callCallback h ?c (logf Debug ''callback handler called for prfix: %s'' [ArgStr k] w)})
        \<or> handleCallbackQuery b es cb w = ?warn"
  proof (cases "lookup (callbackHandlers b) ?d")
    case (Some h)
    then have "handleCallbackQuery b es cb w =
        callCallback h ?c (logf Debug ''callback handler called'' [] w)"
      by (simp add: handleCallbackQuery_def)
    with Some show ?thesis by blast
  next
    case None
    show ?thesis
    proof (cases "\<exists>e \<in> set es. prefix (fst e) ?d")
      case True
      then obtain pre e post where sp: "es = pre @ e # post" "prefix (fst e) ?d"
        "\<forall>y \<in> set pre. \<not> prefix (fst y) ?d"
        using split_list_first_prop [of es "\<lambda>e. prefix (fst e) ?d"] by blast
      obtain k h where e: "e = (k, h)" by (cases e)
      have "handleCallbackQuery b es cb w =
          callCallback h ?c (logf Debug ''callback handler called for prfix: %s'' [ArgStr k] w)"
        using None sp e by (simp add: handleCallbackQuery_def rangePrefix_first)
      moreover have "lookup (callbackHandlers b) k = Some h"
        using range_of_entry [OF assms, of k h] sp(1) e by simp
      ultimately show ?thesis using sp(2) e by auto
    next
      case False
      then have "handleCallbackQuery b es cb w = ?warn"
        using None by (simp add: handleCallbackQuery_def rangePrefix_none)
      then show ?thesis by blast
    qed
  qed
qed

lemma demo_cb_run:
  "callCallback (cb_handler s) c w = (Done None, mark (s @ '':'' @ cbc_Data c) w)"
  by (simp add: callCallback_def cb_handler_def)

theorem callback_selects_one_handler_witness:
  "range_of (callbackHandlers demo_bot) [(''buy:1'', cb_handler ''buy1''), (''buy'', cb_handler ''buy'')]
   \<and> prefix ''buy'' ''buy:1''
   \<and> app (snd (handleCallbackQuery demo_bot
                 [(''buy:1'', cb_handler ''buy1''), (''buy'', cb_handler ''buy'')]
                 (demo_query ''buy:1'') demo_world)) = [''buy1:buy:1'']
   \<and> app (snd (handleCallbackQuery demo_bot
                 [(''buy:1'', cb_handler ''buy1''), (''buy'', cb_handler ''buy'')]
                 (demo_query ''buy:2'') demo_world)) = [''buy:buy:2'']
   \<and> handleCallbackQuery demo_bot
       [(''buy:1'', cb_handler ''buy1''), (''buy'', cb_handler ''buy'')]
       (demo_query ''sell'') demo_world =
     (Done None,
      \<lparr>logs = [(Warn, ''No callback handler found for data: %s'', [ArgStr ''sell''])], app = []\<rparr>)"
proof -
  let ?es = "[(''buy:1'', cb_handler ''buy1''), (''buy'', cb_handler ''buy'')]"
  have r: "range_of (callbackHandlers demo_bot) ?es"
    by (simp add: range_of_def demo_bot_def)
  have l: "lookup (callbackHandlers demo_bot) ''buy:1'' = Some (cb_handler ''buy1'')"
    "lookup (callbackHandlers demo_bot) ''buy:2'' = None"
    by (simp_all add: lookup_def demo_bot_def)
  have keys: "lookup (callbackHandlers demo_bot) k \<noteq> None \<Longrightarrow> k = ''buy'' \<or> k = ''buy:1''" for k
    by (simp add: lookup_def demo_bot_def split: if_splits)
  have l3: "\<forall>k. lookup (callbackHandlers demo_bot) k \<noteq> None \<longrightarrow> \<not> prefix k ''sell''"
  proof (intro allI impI)
    fix k assume "lookup (callbackHandlers demo_bot) k \<noteq> None"
    then have "k = ''buy'' \<or> k = ''buy:1''" by (rule keys)
    then show "\<not> prefix k ''sell''" by auto
  qed
  have s: "?es = [(''buy:1'', cb_handler ''buy1'')] @ (''buy'', cb_handler ''buy'') # [] \<and>
      (\<forall>k' \<in> fst ` set [(''buy:1'', cb_handler ''buy1'')]. \<not> prefix k' ''buy:2'') \<and>
      prefix ''buy'' ''buy:2''"
    by simp
  have d: "cq_Data (demo_query x) = x" for x
    by (simp add: demo_query_def)
  note t = callback_selects_one_handler [OF r, of _ demo_world]
  have a1: "handleCallbackQuery demo_bot ?es (demo_query ''buy:1'') demo_world =
      callCallback (cb_handler ''buy1'') (newCallbackContext (demo_query ''buy:1''))
        (logf Debug ''callback handler called'' [] demo_world)"
    by (rule t [of "demo_query ''buy:1''", unfolded d, THEN conjunct1, rule_format, OF l(1)])
  have a2: "handleCallbackQuery demo_bot ?es (demo_query ''buy:2'') demo_world =
      callCallback (cb_handler ''buy'') (newCallbackContext (demo_query ''buy:2''))
        (logf Debug ''callback handler called for prfix: %s'' [ArgStr ''buy''] demo_world)"
    by (rule t [of "demo_query ''buy:2''", unfolded d, THEN conjunct2, THEN conjunct1, rule_format,
          OF l(2) s, THEN conjunct2])
  have a3: "handleCallbackQuery demo_bot ?es (demo_query ''sell'') demo_world =
      (Done None, logf Warn ''No callback handler found for data: %s'' [ArgStr ''sell''] demo_world)"
    by (rule t [of "demo_query ''sell''", unfolded d, THEN conjunct2, THEN conjunct2, THEN conjunct1,
          THEN mp, OF l3])
  have "prefix ''buy'' ''buy:1''"
    by simp
  then show ?thesis
    unfolding a1 a2 a3 using r
    by (simp add: demo_cb_run newCallbackContext_def demo_query_def mark_def logf_def
        demo_world_def)
qed

section \<open>Properties of the Handler Registry\<close>

text \<open>
  Claim C9. Registering \<open>h1\<close> and then \<open>h2\<close> under the same key succeeds without an error
  or a panic and leaves the registry exactly as registering \<open>h2\<close> alone would: a lookup
  of the key yields \<open>h2\<close>. This holds for the message-handler registry of every bot
  (\<^verbatim>\<open>OnMessage\<close> allocates a nil map) and for the callback-handler registry of every
  bot whose map is allocated, as \<^verbatim>\<open>NewBot\<close> does.
\<close>

theorem registration_last_wins:
  "lookup (messageHandlers (OnMessage k h' (OnMessage k h b))) k = Some h'
   \<and> messageHandlers (OnMessage k h' (OnMessage k h b)) = messageHandlers (OnMessage k h' b)
   \<and> (callbackHandlers b \<noteq> None \<longrightarrow>
        (\<exists>b1 b2. OnCallback k g b = Done b1 \<and> OnCallback k g' b1 = Done b2 \<and>
           lookup (callbackHandlers b2) k = Some g' \<and> OnCallback k g' b = Done b2))"
  by (auto simp: OnMessage_def OnCallback_def lookup_def)

theorem registration_last_wins_witness:
  "callbackHandlers demo_bot \<noteq> None
   \<and> (\<exists>b1 b2. OnCallback ''buy'' (cb_handler ''first'') demo_bot = Done b1 \<and>
        OnCallback ''buy'' (cb_handler ''second'') b1 = Done b2 \<and>
        lookup (callbackHandlers b2) ''buy'' = Some (cb_handler ''second''))
   \<and> lookup (messageHandlers
        (OnMessage ''Photo'' (ok_handler ''second'') (OnMessage ''Photo'' (ok_handler ''first'') demo_bot)))
        ''Photo'' = Some (ok_handler ''second'')"
proof -
  have a: "callbackHandlers demo_bot \<noteq> None"
    by (simp add: demo_bot_def)
  note t = registration_last_wins [where b = demo_bot]
  have "\<exists>b1 b2. OnCallback ''buy'' (cb_handler ''first'') demo_bot = Done b1 \<and>
        OnCallback ''buy'' (cb_handler ''second'') b1 = Done b2 \<and>
        lookup (callbackHandlers b2) ''buy'' = Some (cb_handler ''second'') \<and>
        OnCallback ''buy'' (cb_handler ''second'') demo_bot = Done b2"
    by (rule t [where k = "''buy''" and g = "cb_handler ''first''" and g' = "cb_handler ''second''",
          THEN conjunct2, THEN conjunct2, THEN mp, OF a])
  then have "\<exists>b1 b2. OnCallback ''buy'' (cb_handler ''first'') demo_bot = Done b1 \<and>
        OnCallback ''buy'' (cb_handler ''second'') b1 = Done b2 \<and>
        lookup (callbackHandlers b2) ''buy'' = Some (cb_handler ''second'')"
    by blast
  moreover have "lookup (messageHandlers
        (OnMessage ''Photo'' (ok_handler ''second'') (OnMessage ''Photo'' (ok_handler ''first'') demo_bot)))
        ''Photo'' = Some (ok_handler ''second'')"
    by (rule t [where k = "''Photo''", THEN conjunct1])
  ultimately show ?thesis
    using a by blast
qed

section \<open>Properties of \<^verbatim>\<open>EditMessageText\<close>\<close>

text \<open>
  Claim C10. For every request, \<^verbatim>\<open>EditMessageText\<close> makes one transport call, with the
  bot's token and the operation name \<^verbatim>\<open>getMyShortDescription\<close> (which is not
  \<^verbatim>\<open>editMessageText\<close>); the parameter mapping has no key other than \<^verbatim>\<open>chat_id\<close> and
  \<^verbatim>\<open>message_id\<close>, and the call is the same whatever the request's text and reply
  markup are.
\<close>

lemma dom_Add: "dom (Add key v pb) \<subseteq> insert key (dom pb)"
  by (auto simp: Add_def)

theorem EditMessageText_wrong_operation:
  "\<exists>ps. dom ps \<subseteq> {''chat_id'', ''message_id''}
     \<and> ''getMyShortDescription'' \<noteq> ''editMessageText''
     \<and> (\<forall>makeAPIRequest t r.
          EditMessageText makeAPIRequest b (req\<lparr>emt_Text := t, emt_ReplyMarkup := r\<rparr>) =
            makeAPIRequest (token b) ''getMyShortDescription'' ps)"
proof -
  let ?inner = "Add ''chat_id'' (PInt64 (emt_ChatId req)) NewParamBuilder"
  let ?ps = "Build (Add ''message_id'' (PInt64 (emt_MessageId req)) ?inner)"
  have "dom ?inner \<subseteq> {''chat_id''}"
    using dom_Add [of "''chat_id''" "PInt64 (emt_ChatId req)" NewParamBuilder]
    by (simp add: NewParamBuilder_def)
  then have "dom ?ps \<subseteq> {''chat_id'', ''message_id''}"
    using dom_Add [of "''message_id''" "PInt64 (emt_MessageId req)" ?inner]
    unfolding Build_def by blast
  moreover have "''getMyShortDescription'' \<noteq> ''editMessageText''"
    by simp
  moreover have "\<forall>makeAPIRequest t r.
      EditMessageText makeAPIRequest b (req\<lparr>emt_Text := t, emt_ReplyMarkup := r\<rparr>) =
        makeAPIRequest (token b) ''getMyShortDescription'' ?ps"
    by (simp add: EditMessageText_def)
  ultimately show ?thesis
    by (intro exI [of _ ?ps] conjI)
qed

theorem EditMessageText_wrong_operation_witness:
  "EditMessageText (\<lambda>t m ps. (t, m, ps ''chat_id'', ps ''message_id'', ps ''text'', ps ''reply_markup''))
     demo_bot demo_request =
   (''TOKEN'', ''getMyShortDescription'', Some (PInt64 5), Some (PInt64 11), None, None)"
proof -
  let ?mk = "\<lambda>t m ps. (t, m, ps ''chat_id'', ps ''message_id'', ps ''text'', ps ''reply_markup'')"
  from EditMessageText_wrong_operation [of demo_bot demo_request]
  obtain ps :: "string \<rightharpoonup> param" where d: "dom ps \<subseteq> {''chat_id'', ''message_id''}"
    and c: "\<forall>makeAPIRequest t r.
          EditMessageText makeAPIRequest demo_bot
            (demo_request\<lparr>emt_Text := t, emt_ReplyMarkup := r\<rparr>) =
            (makeAPIRequest (token demo_bot) ''getMyShortDescription'' ps
              :: string \<times> string \<times> param option \<times> param option \<times> param option \<times> param option)"
    by (elim exE conjE)
  have e: "EditMessageText ?mk demo_bot demo_request =
      ?mk (token demo_bot) ''getMyShortDescription'' ps"
    using c [THEN spec [where x = ?mk], THEN spec [where x = "emt_Text demo_request"],
        THEN spec [where x = "emt_ReplyMarkup demo_request"]]
    by simp
  have n: "ps ''text'' = None" "ps ''reply_markup'' = None"
    using d by (auto simp: subset_iff dom_def)
  have v: "EditMessageText (\<lambda>t m ps. (ps ''chat_id'', ps ''message_id'')) demo_bot demo_request =
      (Some (PInt64 5), Some (PInt64 11))"
    by (simp add: EditMessageText_def Build_def Add_def NewParamBuilder_def demo_request_def)
  have "ps ''chat_id'' = Some (PInt64 5) \<and> ps ''message_id'' = Some (PInt64 11)"
    using e v by (simp add: EditMessageText_def)
  then show ?thesis
    unfolding e using n by (simp add: demo_bot_def)
qed

end
